theory Spec2Isabelle
  imports Complex_Main "HOL-Library.Sublist"
begin

section \<open>JavaScript values\<close>

text \<open>
  A JavaScript string is a sequence of UTF-16 code units; a code unit is modelled as a
  natural number (below 65536 in every real string). \<open>js\<close> turns an ASCII literal into
  such a sequence.
\<close>

type_synonym js_string = "nat list"

definition js :: "string \<Rightarrow> js_string" where
  "js s = map of_char s"

subsection \<open>Numbers\<close>

text \<open>
  A JavaScript number is an IEEE 754 double: NaN, the two infinities, the negative zero,
  or \<open>Finite m e\<close>, the value \<open>m\<close> times two to the power \<open>e\<close>. The results of the
  operations below have an odd mantissa, or are \<open>Finite 0 0\<close>, the positive zero, and
  lie in the range of the doubles; the operations read any \<open>Finite m e\<close> as the value
  it stands for.
\<close>

datatype number = NaN | PosInfinity | NegInfinity | NegZero | Finite int int

text \<open>The number of bits of a positive integer, and the removal of trailing zero bits.\<close>

function bitLength :: "int \<Rightarrow> int" where
  "bitLength n = (if n \<le> 0 then 0 else 1 + bitLength (n div 2))"
  by pat_completeness auto
termination
  by (relation "measure nat") auto

function canonical :: "int \<Rightarrow> int \<Rightarrow> number" where
  "canonical m e =
     (if m = 0 then Finite 0 0
      else if even m then canonical (m div 2) (e + 1)
      else Finite m e)"
  by pat_completeness auto
termination
  by (relation "measure (\<lambda>(m, e). nat \<bar>m\<bar>)") auto

declare bitLength.simps [simp del] canonical.simps [simp del]

text \<open>
  Rounding to the nearest double, ties to the even mantissa, of the positive fraction
  \<open>n / d\<close> with the sign \<open>negative\<close>. \<open>floorLog2 n d\<close> is the exponent of the fraction:
  two to that power is at most \<open>n / d\<close>, which is less than twice as much. The mantissa
  has 53 bits, or fewer below the smallest normal exponent -1022; a result of
  magnitude two to the power 1024 or more is an infinity, and a result that rounds to
  nothing is a zero with the sign of the fraction.
\<close>

definition floorLog2 :: "int \<Rightarrow> int \<Rightarrow> int" where
  "floorLog2 n d =
     (let k = bitLength n - bitLength d
      in if (if 0 \<le> k then d * 2 ^ nat k \<le> n else d \<le> n * 2 ^ nat (- k)) then k else k - 1)"

definition roundHalfEven :: "int \<Rightarrow> int \<Rightarrow> int" where
  "roundHalfEven n d =
     (let f = n div d; r = n mod d
      in if 2 * r < d then f else if d < 2 * r then f + 1 else if even f then f else f + 1)"

definition roundToDouble :: "bool \<Rightarrow> int \<Rightarrow> int \<Rightarrow> number" where
  "roundToDouble negative n d =
     (let u = max (floorLog2 n d) (- 1022) - 52;
          m = (if 0 \<le> u then roundHalfEven n (d * 2 ^ nat u)
               else roundHalfEven (n * 2 ^ nat (- u)) d)
      in if 1024 \<le> u \<or> (0 \<le> u \<and> 2 ^ nat (1024 - u) \<le> m) then
           (if negative then NegInfinity else PosInfinity)
         else if m = 0 then (if negative then NegZero else Finite 0 0)
         else canonical (if negative then - m else m) u)"

text \<open>
  The double nearest to \<open>m\<close> times two to the power \<open>e\<close>, and the double that the
  decimal literal of the fraction \<open>p / q\<close> denotes (\<open>lit 1 1000\<close> for \<open>0.001\<close>,
  \<open>lit 700 1\<close> for \<open>700\<close>).
\<close>

definition nearest :: "int \<Rightarrow> int \<Rightarrow> number" where
  "nearest m e =
     (if m = 0 then Finite 0 0
      else if 0 \<le> e then roundToDouble (m < 0) (\<bar>m\<bar> * 2 ^ nat e) 1
      else roundToDouble (m < 0) \<bar>m\<bar> (2 ^ nat (- e)))"

definition lit :: "int \<Rightarrow> int \<Rightarrow> number" where
  "lit p q = (if p = 0 then Finite 0 0 else roundToDouble (p < 0) \<bar>p\<bar> q)"

fun isZero :: "number \<Rightarrow> bool" where
  "isZero NegZero = True"
| "isZero (Finite m e) = (m = 0)"
| "isZero _ = False"

fun isNegative :: "number \<Rightarrow> bool" where
  "isNegative NegInfinity = True"
| "isNegative NegZero = True"
| "isNegative (Finite m e) = (m < 0)"
| "isNegative _ = False"

fun isInfinite :: "number \<Rightarrow> bool" where
  "isInfinite PosInfinity = True"
| "isInfinite NegInfinity = True"
| "isInfinite _ = False"

text \<open>
  The operators \<open>+\<close>, \<open>*\<close>, unary and binary \<open>-\<close> on numbers: the exact result,
  rounded. A sum of opposite finite numbers is the positive zero, and so is the sum of
  the two zeros of different sign; a product that is zero has the sign of its factors.
\<close>

fun addNumber :: "number \<Rightarrow> number \<Rightarrow> number" where
  "addNumber NaN y = NaN"
| "addNumber x NaN = NaN"
| "addNumber PosInfinity NegInfinity = NaN"
| "addNumber NegInfinity PosInfinity = NaN"
| "addNumber PosInfinity y = PosInfinity"
| "addNumber x PosInfinity = PosInfinity"
| "addNumber NegInfinity y = NegInfinity"
| "addNumber x NegInfinity = NegInfinity"
| "addNumber NegZero y = y"
| "addNumber x NegZero = x"
| "addNumber (Finite m1 e1) (Finite m2 e2) =
     nearest (m1 * 2 ^ nat (e1 - min e1 e2) + m2 * 2 ^ nat (e2 - min e1 e2)) (min e1 e2)"

definition mulNumber :: "number \<Rightarrow> number \<Rightarrow> number" where
  "mulNumber x y =
     (if x = NaN \<or> y = NaN then NaN
      else if isInfinite x \<or> isInfinite y then
        (if isZero x \<or> isZero y then NaN
         else if isNegative x = isNegative y then PosInfinity else NegInfinity)
      else if isZero x \<or> isZero y then
        (if isNegative x = isNegative y then Finite 0 0 else NegZero)
      else
        (case (x, y) of
           (Finite m1 e1, Finite m2 e2) \<Rightarrow> nearest (m1 * m2) (e1 + e2)
         | _ \<Rightarrow> NaN))"

fun negate :: "number \<Rightarrow> number" where
  "negate NaN = NaN"
| "negate PosInfinity = NegInfinity"
| "negate NegInfinity = PosInfinity"
| "negate NegZero = Finite 0 0"
| "negate (Finite m e) = (if m = 0 then NegZero else Finite (- m) e)"

instantiation number :: "{zero, plus, minus, uminus, times}"
begin

definition zero_number :: number where
  "zero_number = Finite 0 0"

definition plus_number :: "number \<Rightarrow> number \<Rightarrow> number" where
  "plus_number x y = addNumber x y"

definition uminus_number :: "number \<Rightarrow> number" where
  "uminus_number x = negate x"

definition minus_number :: "number \<Rightarrow> number \<Rightarrow> number" where
  "minus_number x y = addNumber x (negate y)"

definition times_number :: "number \<Rightarrow> number \<Rightarrow> number" where
  "times_number x y = mulNumber x y"

instance ..

end

text \<open>The numbers that count as false: NaN and the two zeros.\<close>

definition falsyNumber :: "number \<Rightarrow> bool" where
  "falsyNumber x \<longleftrightarrow> x = NaN \<or> isZero x"

subsection \<open>Values of a parsed body\<close>

text \<open>
  What \<open>response.json()\<close> resolves to. An object is the list of its properties; as in
  \<open>JSON.parse\<close>, a later binding of a key replaces an earlier one. Reading a property
  gives \<open>None\<close> for JavaScript's \<open>undefined\<close>.
\<close>

datatype json =
    JNull
  | JBool bool
  | JNumber number
  | JString js_string
  | JArray "json list"
  | JObject "(js_string \<times> json) list"

fun getProp :: "json \<Rightarrow> js_string \<Rightarrow> json option" where
  "getProp (JObject kvs) k = map_of (rev kvs) k"
| "getProp _ k = None"

text \<open>The operator \<open>a ?? b\<close>: \<open>b\<close> when \<open>a\<close> is \<open>undefined\<close> or \<open>null\<close>, else \<open>a\<close>.\<close>

fun nullish :: "json option \<Rightarrow> json option \<Rightarrow> json option" where
  "nullish None b = b"
| "nullish (Some JNull) b = b"
| "nullish (Some a) b = Some a"

text \<open>
  Truthiness of an optional string, and \<open>x || ''\<close> and \<open>x || 0\<close> on an optional string
  and an optional number.
\<close>

fun falsy :: "js_string option \<Rightarrow> bool" where
  "falsy None = True"
| "falsy (Some s) = (s = [])"

fun orEmpty :: "js_string option \<Rightarrow> js_string" where
  "orEmpty None = []"
| "orEmpty (Some s) = s"

fun orZero :: "number option \<Rightarrow> number" where
  "orZero None = 0"
| "orZero (Some v) = (if falsyNumber v then 0 else v)"

text \<open>\<open>Array.prototype.join\<close> on strings, and the decimal rendering of a status code.\<close>

fun join :: "js_string \<Rightarrow> js_string list \<Rightarrow> js_string" where
  "join sep [] = []"
| "join sep [x] = x"
| "join sep (x # y # ys) = x @ sep @ join sep (y # ys)"

function toDecimal :: "nat \<Rightarrow> js_string" where
  "toDecimal n = (if n < 10 then [48 + n] else toDecimal (n div 10) @ [48 + n mod 10])"
  by pat_completeness auto
termination
  by (relation "measure (\<lambda>n. n)") auto

declare toDecimal.simps [simp del]

text \<open>
  Errors raised by the module: a \<open>TypeError\<close> of the engine (its message is the
  engine's own) and an \<open>Error\<close> with the message the module gives it.

  The values the \<open>catch\<close> clause of the module can receive: a string; an \<open>Error\<close>
  object, with its message when that is a string (\<open>None\<close> for a message that is
  \<open>undefined\<close>, \<open>null\<close>, a number or a boolean, on which \<open>replace\<close> cannot be
  called); or any other value, for which the clause calls \<open>JSON.stringify\<close>. That call
  returns a text, returns \<open>undefined\<close> (for \<open>undefined\<close>, functions and symbols), or
  throws; then \<open>String(error)\<close> is called, which gives a text or throws as well
  (\<open>None\<close>: a \<open>TypeError\<close>, for a value without a conversion to a primitive).
\<close>

datatype js_error = TypeError | Error js_string

datatype stringified =
    Stringified js_string
  | StringifiedUndefined
  | StringifyThrew "js_string option"

datatype thrown =
    ThrownString js_string
  | ThrownError "js_string option"
  | ThrownOther stringified

datatype log_entry = Warn js_string | Debug js_string

text \<open>
  A call of an effectful operation: what it returned or threw, the HTTP requests it
  issued and the log entries it wrote, in order.
\<close>

record 'a run =
  returned :: "js_error + 'a"
  fetched :: "(js_string \<times> (js_string \<times> js_string) list) list"
  logged :: "log_entry list"

section \<open>Collaborators of the module\<close>

text \<open>
  Modelled from the spec: the types of \<open>@common/agent\<close>, \<open>@common/types\<close>, \<open>@/models\<close>,
  \<open>@/task/task\<close> and \<open>ai\<close> are not part of the sources; the records below have the
  fields the module reads or writes. \<open>ModelInfo\<close> is the pricing metadata of a model, and
  a \<open>Model\<close> is that metadata together with the model's and the provider's identifiers.
\<close>

record LlmProvider =
  name :: js_string
  apiKey :: "js_string option"

record ProviderProfile =
  profileId :: js_string
  provider :: LlmProvider
  headers :: "(js_string \<times> js_string) list option"

record ModelInfo =
  inputCostPerToken :: "number option"
  outputCostPerToken :: "number option"
  cacheWriteInputTokenCost :: "number option"
  cacheReadInputTokenCost :: "number option"

record Model = ModelInfo +
  modelId :: js_string
  providerId :: js_string

record LoadModelsResponse =
  models :: "Model list"
  success :: bool
  error :: "js_string option"

record EnvironmentVariable =
  envValue :: js_string
  envSource :: js_string

record AiderModelMapping =
  modelName :: js_string
  environmentVariables :: "js_string \<rightharpoonup> js_string"

record LanguageModel =
  llmApiKey :: js_string
  llmBaseURL :: js_string
  llmHeaders :: "(js_string \<times> js_string) list option"
  llmModelId :: js_string

record Response =
  status :: nat
  statusText :: js_string
  textResult :: "js_string option"
  jsonResult :: "thrown + json"

text \<open>
  Modelled from the spec: \<open>isMiniMaxProvider\<close> of \<open>@common/agent\<close>, the guard that the
  profile's provider is of this provider's type.
\<close>

definition isMiniMaxProvider :: "LlmProvider \<Rightarrow> bool" where
  "isMiniMaxProvider p \<longleftrightarrow> name p = js ''minimax''"

text \<open>
  \<open>getEffectiveEnvironmentVariable(name, settings, projectDir?)\<close> of \<open>@/utils\<close> and the
  global \<open>fetch\<close> are parameters of the operations that call them. \<open>fetch\<close> maps the
  URL and the headers of a request to the value it rejects with or to the response;
  \<open>textResult\<close> is \<open>None\<close> when \<open>response.text()\<close> rejects, and \<open>jsonResult\<close> is
  what \<open>response.json()\<close> rejects with or resolves to.
\<close>

type_synonym 's resolver = "js_string \<Rightarrow> 's \<Rightarrow> js_string option \<Rightarrow> EnvironmentVariable option"

type_synonym fetcher = "js_string \<times> (js_string \<times> js_string) list \<Rightarrow> thrown + Response"

definition ok :: "Response \<Rightarrow> bool" where
  "ok r \<longleftrightarrow> 200 \<le> status r \<and> status r \<le> 299"

section \<open>The module\<close>

definition MINIMAX_BASE_URL :: js_string where
  "MINIMAX_BASE_URL = js ''https://api.minimax.io/anthropic''"

definition MINIMAX_MODELS_ENDPOINT :: js_string where
  "MINIMAX_MODELS_ENDPOINT = MINIMAX_BASE_URL @ js ''/v1/models''"

definition KNOWN_MINIMAX_MODELS :: "js_string list" where
  "KNOWN_MINIMAX_MODELS = [js ''MiniMax-M2'', js ''MiniMax-M2-Stable'']"

subsection \<open>loadMiniMaxModels\<close>

definition toModel :: "ProviderProfile \<Rightarrow> (js_string \<rightharpoonup> ModelInfo) \<Rightarrow> js_string \<Rightarrow> Model" where
  "toModel profile modelsInfo mid =
     (case modelsInfo mid of
        None \<Rightarrow>
          \<lparr>inputCostPerToken = None, outputCostPerToken = None,
           cacheWriteInputTokenCost = None, cacheReadInputTokenCost = None,
           modelId = mid, providerId = profileId profile\<rparr>
      | Some info \<Rightarrow>
          \<lparr>inputCostPerToken = inputCostPerToken info,
           outputCostPerToken = outputCostPerToken info,
           cacheWriteInputTokenCost = cacheWriteInputTokenCost info,
           cacheReadInputTokenCost = cacheReadInputTokenCost info,
           modelId = mid, providerId = profileId profile\<rparr>)"

text \<open>
  The class \<open>\s\<close> of a regular expression, which is also what \<open>trim\<close> removes:
  tab, line feed, vertical tab, form feed, carriage return, space, no-break space,
  U+1680, U+2000 to U+200A, U+2028, U+2029, U+202F, U+205F, U+3000 and U+FEFF.
\<close>

definition isWhiteSpace :: "nat \<Rightarrow> bool" where
  "isWhiteSpace u \<longleftrightarrow>
     (9 \<le> u \<and> u \<le> 13) \<or> u = 32 \<or> u = 160 \<or> u = 5760 \<or> (8192 \<le> u \<and> u \<le> 8202) \<or>
     u = 8232 \<or> u = 8233 \<or> u = 8239 \<or> u = 8287 \<or> u = 12288 \<or> u = 65279"

text \<open>
  \<open>.replace(/<[^>]*>/g, ' ')\<close>: scanning from the left, a \<open><\<close> (60) that has a \<open>>\<close>
  (62) somewhere after it starts a match that ends at the first such \<open>>\<close>; the match
  becomes one space (32) and the scan goes on behind it.
\<close>

function stripTags :: "js_string \<Rightarrow> js_string" where
  "stripTags [] = []"
| "stripTags (c # cs) =
     (if c = 60 \<and> 62 \<in> set cs
      then 32 # stripTags (tl (dropWhile (\<lambda>x. x \<noteq> 62) cs))
      else c # stripTags cs)"
  by pat_completeness auto
termination
proof (relation "measure length")
  fix c :: nat and cs :: "nat list"
  have "length (dropWhile (\<lambda>x. x \<noteq> 62) cs) \<le> length cs"
    by (rule length_dropWhile_le)
  then show "(tl (dropWhile (\<lambda>x. x \<noteq> 62) cs), c # cs) \<in> measure length"
    by simp
qed simp_all

text \<open>\<open>.replace(/\s+/g, ' ')\<close>: every maximal run of white space becomes one space.\<close>

function collapseWhiteSpace :: "js_string \<Rightarrow> js_string" where
  "collapseWhiteSpace [] = []"
| "collapseWhiteSpace (c # cs) =
     (if isWhiteSpace c then 32 # collapseWhiteSpace (dropWhile isWhiteSpace cs)
      else c # collapseWhiteSpace cs)"
  by pat_completeness auto
termination
proof (relation "measure length")
  fix c :: nat and cs :: "nat list"
  have "length (dropWhile isWhiteSpace cs) \<le> length cs"
    by (rule length_dropWhile_le)
  then show "(dropWhile isWhiteSpace cs, c # cs) \<in> measure length"
    by simp
qed simp_all

definition trim :: "js_string \<Rightarrow> js_string" where
  "trim s = rev (dropWhile isWhiteSpace (rev (dropWhile isWhiteSpace s)))"

definition sanitizeReason :: "js_string \<Rightarrow> js_string" where
  "sanitizeReason reason = trim (collapseWhiteSpace (stripTags reason))"

definition warningText :: "js_string \<Rightarrow> js_string" where
  "warningText sanitizedReason =
     js ''MiniMax models API unavailable ('' @ sanitizedReason
       @ js ''). Falling back to static MiniMax model list: ''
       @ join (js '', '') KNOWN_MINIMAX_MODELS"

text \<open>The fallback for a reason that is a string: the result and the warning.\<close>

definition fallbackToKnownModels ::
  "ProviderProfile \<Rightarrow> (js_string \<rightharpoonup> ModelInfo) \<Rightarrow> js_string
     \<Rightarrow> LoadModelsResponse \<times> log_entry list" where
  "fallbackToKnownModels profile modelsInfo reason =
     (let sanitizedReason =
            (if sanitizeReason reason = [] then js ''Unknown error'' else sanitizeReason reason)
      in (\<lparr>models = map (toModel profile modelsInfo) KNOWN_MINIMAX_MODELS,
           success = True, error = None\<rparr>,
          [Warn (warningText sanitizedReason)]))"

text \<open>
  The callback of \<open>remoteModels.map\<close>: a string is its own identifier; a truthy value of
  type object (an object or an array) gives \<open>id ?? model ?? name\<close> when that is a
  string; anything else gives \<open>undefined\<close>.
\<close>

fun entryId :: "json \<Rightarrow> js_string option" where
  "entryId (JString s) = Some s"
| "entryId (JObject kvs) =
     (case nullish (getProp (JObject kvs) (js ''id''))
             (nullish (getProp (JObject kvs) (js ''model''))
                (getProp (JObject kvs) (js ''name''))) of
        Some (JString s) \<Rightarrow> Some s
      | _ \<Rightarrow> None)"
| "entryId (JArray xs) =
     (case nullish (getProp (JArray xs) (js ''id''))
             (nullish (getProp (JArray xs) (js ''model''))
                (getProp (JArray xs) (js ''name''))) of
        Some (JString s) \<Rightarrow> Some s
      | _ \<Rightarrow> None)"
| "entryId _ = None"

text \<open>The filter \<open>typeof modelId === 'string' && modelId.length > 0\<close>.\<close>

fun usableId :: "js_string option \<Rightarrow> bool" where
  "usableId None = False"
| "usableId (Some s) = (0 < length s)"

definition parseModelIds :: "json \<Rightarrow> js_string list" where
  "parseModelIds data =
     (let remoteModels = (case getProp data (js ''data'') of Some (JArray xs) \<Rightarrow> xs | _ \<Rightarrow> [])
      in map the (filter usableId (map entryId remoteModels)))"

text \<open>
  The \<open>try\<close> block: what it throws, or the result and the log entries it returns. Its
  two calls of the fallback pass a string.
\<close>

definition tryBlock ::
  "fetcher \<Rightarrow> ProviderProfile \<Rightarrow> (js_string \<rightharpoonup> ModelInfo)
     \<Rightarrow> js_string \<times> (js_string \<times> js_string) list
     \<Rightarrow> thrown + LoadModelsResponse \<times> log_entry list" where
  "tryBlock fetch profile modelsInfo request =
     (case fetch request of
        Inl t \<Rightarrow> Inl t
      | Inr response \<Rightarrow>
          if \<not> ok response then
            (let errorText = (case textResult response of None \<Rightarrow> [] | Some t \<Rightarrow> t);
                 reasonParts =
                   [toDecimal (status response) @ js '' '' @ statusText response]
                     @ (if errorText \<noteq> [] then [errorText] else [])
             in Inr (fallbackToKnownModels profile modelsInfo (join (js '' - '') reasonParts)))
          else
            (case jsonResult response of
               Inl t \<Rightarrow> Inl t
             | Inr data \<Rightarrow>
                 (let modelIds = parseModelIds data
                  in if length modelIds = 0 then
                       Inr (fallbackToKnownModels profile modelsInfo
                              (js ''Empty or unsupported MiniMax models response payload''))
                     else
                       Inr (\<lparr>models = map (toModel profile modelsInfo) modelIds,
                             success = True, error = None\<rparr>, []))))"

text \<open>
  The \<open>catch\<close> clause. \<open>catchReason\<close> is the value it assigns to \<open>reason\<close>: \<open>None\<close>
  when that is not a string, and an error when \<open>String(error)\<close> throws. A reason that
  is not a string is passed on to \<open>sanitizeReason\<close>, where the call of \<open>replace\<close>
  raises a \<open>TypeError\<close>; nothing catches it.
\<close>

fun catchReason :: "thrown \<Rightarrow> js_error + js_string option" where
  "catchReason (ThrownString s) = Inr (Some s)"
| "catchReason (ThrownError m) = Inr m"
| "catchReason (ThrownOther (Stringified s)) = Inr (Some s)"
| "catchReason (ThrownOther StringifiedUndefined) = Inr None"
| "catchReason (ThrownOther (StringifyThrew (Some s))) = Inr (Some s)"
| "catchReason (ThrownOther (StringifyThrew None)) = Inl TypeError"

definition catchClause ::
  "ProviderProfile \<Rightarrow> (js_string \<rightharpoonup> ModelInfo) \<Rightarrow> thrown
     \<Rightarrow> (js_error + LoadModelsResponse) \<times> log_entry list" where
  "catchClause profile modelsInfo t =
     (case catchReason t of
        Inl e \<Rightarrow> (Inl e, [])
      | Inr None \<Rightarrow> (Inl TypeError, [])
      | Inr (Some reason) \<Rightarrow>
          (case fallbackToKnownModels profile modelsInfo reason of
             (r, l) \<Rightarrow> (Inr r, l)))"

definition modelsRequest :: "js_string \<Rightarrow> js_string \<times> (js_string \<times> js_string) list" where
  "modelsRequest key =
     (MINIMAX_MODELS_ENDPOINT,
      [(js ''x-api-key'', key), (js ''anthropic-version'', js ''2023-06-01'')])"

definition loadMiniMaxModels ::
  "'s resolver \<Rightarrow> fetcher \<Rightarrow> ProviderProfile \<Rightarrow> (js_string \<rightharpoonup> ModelInfo) \<Rightarrow> 's
     \<Rightarrow> LoadModelsResponse run" where
  "loadMiniMaxModels getEffectiveEnvironmentVariable fetch profile modelsInfo settings =
     (if \<not> isMiniMaxProvider (provider profile) then
        \<lparr>returned = Inr \<lparr>models = [], success = False, error = None\<rparr>,
         fetched = [], logged = []\<rparr>
      else
        (let key = orEmpty (apiKey (provider profile));
             apiKeyEnv = getEffectiveEnvironmentVariable (js ''MINIMAX_API_KEY'') settings None
         in if key = [] \<and> falsy (map_option envValue apiKeyEnv) then
              \<lparr>returned = Inr \<lparr>models = [], success = False, error = None\<rparr>,
               fetched = [], logged = []\<rparr>
            else
              (let request =
                     modelsRequest
                       (if key \<noteq> [] then key else orEmpty (map_option envValue apiKeyEnv))
               in case tryBlock fetch profile modelsInfo request of
                    Inr (r, l) \<Rightarrow> \<lparr>returned = Inr r, fetched = [request], logged = l\<rparr>
                  | Inl t \<Rightarrow>
                      (case catchClause profile modelsInfo t of
                         (res, l) \<Rightarrow> \<lparr>returned = res, fetched = [request], logged = l\<rparr>))))"

subsection \<open>hasMiniMaxEnvVars, getMiniMaxAiderMapping, createMiniMaxLlm\<close>

definition hasMiniMaxEnvVars :: "'s resolver \<Rightarrow> 's \<Rightarrow> bool" where
  "hasMiniMaxEnvVars getEffectiveEnvironmentVariable settings \<longleftrightarrow>
     \<not> falsy (map_option envValue
                (getEffectiveEnvironmentVariable (js ''MINIMAX_API_KEY'') settings None))"

definition getMiniMaxAiderMapping :: "ProviderProfile \<Rightarrow> js_string \<Rightarrow> AiderModelMapping" where
  "getMiniMaxAiderMapping profile mid =
     (let miniMaxProvider = provider profile;
          envVars = [js ''ANTHROPIC_API_URL'' \<mapsto> MINIMAX_BASE_URL];
          envVars' =
            (if \<not> falsy (apiKey miniMaxProvider)
             then envVars(js ''ANTHROPIC_API_KEY'' \<mapsto> orEmpty (apiKey miniMaxProvider))
             else envVars)
      in \<lparr>modelName = js ''anthropic/'' @ mid, environmentVariables = envVars'\<rparr>)"

text \<open>
  The handle that \<open>createAnthropic\<close> builds is modelled by the configuration it is
  built from. The error of a missing key is thrown after the debug entry is written.
\<close>

definition createMiniMaxLlm ::
  "'s resolver \<Rightarrow> ProviderProfile \<Rightarrow> Model \<Rightarrow> 's \<Rightarrow> js_string \<Rightarrow> LanguageModel run" where
  "createMiniMaxLlm getEffectiveEnvironmentVariable profile mdl settings projectDir =
     (let key0 = apiKey (provider profile);
          (key, l) =
            (if falsy key0 then
               (case getEffectiveEnvironmentVariable (js ''MINIMAX_API_KEY'') settings
                       (Some projectDir) of
                  Some effectiveVar \<Rightarrow>
                    (Some (envValue effectiveVar),
                     [Debug (js ''Loaded MINIMAX_API_KEY from '' @ envSource effectiveVar)])
                | None \<Rightarrow> (key0, []))
             else (key0, []))
      in if falsy key then
           \<lparr>returned = Inl (Error (js ''MiniMax API key is required in Providers settings or Aider environment variables (MINIMAX_API_KEY)'')),
            fetched = [], logged = l\<rparr>
         else
           \<lparr>returned = Inr \<lparr>llmApiKey = orEmpty key, llmBaseURL = MINIMAX_BASE_URL,
                             llmHeaders = headers profile, llmModelId = modelId mdl\<rparr>,
            fetched = [], logged = l\<rparr>)"

subsection \<open>calculateMiniMaxCost, getMiniMaxUsageReport\<close>

text \<open>
  The two cache counters are parameters with the default value 0: \<open>None\<close> is an
  omitted argument.
\<close>

definition calculateMiniMaxCost ::
  "Model \<Rightarrow> number \<Rightarrow> number \<Rightarrow> number option \<Rightarrow> number option \<Rightarrow> number" where
  "calculateMiniMaxCost mdl sent received cacheWrite cacheRead =
     (let cacheWriteTokens' = (case cacheWrite of None \<Rightarrow> 0 | Some n \<Rightarrow> n);
          cacheReadTokens' = (case cacheRead of None \<Rightarrow> 0 | Some n \<Rightarrow> n);
          inputCostPerToken' = (case inputCostPerToken mdl of None \<Rightarrow> 0 | Some c \<Rightarrow> c);
          outputCostPerToken' = (case outputCostPerToken mdl of None \<Rightarrow> 0 | Some c \<Rightarrow> c);
          cacheWriteInputTokenCost' =
            (case cacheWriteInputTokenCost mdl of None \<Rightarrow> inputCostPerToken' | Some c \<Rightarrow> c);
          cacheReadInputTokenCost' =
            (case cacheReadInputTokenCost mdl of None \<Rightarrow> 0 | Some c \<Rightarrow> c);
          inputCost = sent * inputCostPerToken';
          outputCost = received * outputCostPerToken';
          cacheCreationCost = cacheWriteTokens' * cacheWriteInputTokenCost';
          cacheReadCost = cacheReadTokens' * cacheReadInputTokenCost';
          cacheCost = cacheCreationCost + cacheReadCost
      in inputCost + outputCost + cacheCost)"

record AnthropicMetadata =
  cacheCreationInputTokens :: "number option"
  cacheReadInputTokens :: "number option"

record MiniMaxMetadata =
  anthropic :: "AnthropicMetadata option"

record LanguageModelUsage =
  inputTokens :: "number option"
  outputTokens :: "number option"
  cachedInputTokens :: "number option"

record TaskData =
  agentTotalCost :: number

record Task =
  task :: TaskData

record UsageReportData =
  model :: js_string
  sentTokens :: number
  receivedTokens :: number
  cacheWriteTokens :: number
  cacheReadTokens :: number
  messageCost :: number
  agentTotalCost :: number

text \<open>
  \<open>providerMetadata\<close> is \<open>None\<close> when the argument is omitted (or falsy), and its
  \<open>anthropic\<close> part is \<open>None\<close> when the metadata has no such property.
\<close>

definition getMiniMaxUsageReport ::
  "Task \<Rightarrow> ProviderProfile \<Rightarrow> Model \<Rightarrow> LanguageModelUsage \<Rightarrow> MiniMaxMetadata option
     \<Rightarrow> UsageReportData" where
  "getMiniMaxUsageReport tsk profile mdl usage providerMetadata =
     (let totalSentTokens = orZero (inputTokens usage);
          received = orZero (outputTokens usage);
          anthropic' = (case providerMetadata of None \<Rightarrow> None | Some md \<Rightarrow> anthropic md);
          cacheWrite =
            (case Option.bind anthropic' cacheCreationInputTokens of None \<Rightarrow> 0 | Some n \<Rightarrow> n);
          cacheRead =
            (case Option.bind anthropic' cacheReadInputTokens of
               Some n \<Rightarrow> n
             | None \<Rightarrow> (case cachedInputTokens usage of Some n \<Rightarrow> n | None \<Rightarrow> 0));
          sent = totalSentTokens - cacheRead;
          cost = calculateMiniMaxCost mdl sent received (Some cacheWrite) (Some cacheRead)
      in \<lparr>model = profileId profile @ js ''/'' @ modelId mdl,
          sentTokens = sent,
          receivedTokens = received,
          cacheWriteTokens = cacheWrite,
          cacheReadTokens = cacheRead,
          messageCost = cost,
          agentTotalCost = TaskData.agentTotalCost (task tsk) + cost\<rparr>)"

section \<open>Notions of the specification\<close>

text \<open>
  The key sent to the provider: the explicit key of the profile when it is not empty,
  else the value of the environment variable, else the empty string.
\<close>

definition resolvedKey :: "js_string option \<Rightarrow> EnvironmentVariable option \<Rightarrow> js_string" where
  "resolvedKey explicit env =
     (case explicit of
        Some k \<Rightarrow> if k \<noteq> [] then k else orEmpty (map_option envValue env)
      | None \<Rightarrow> orEmpty (map_option envValue env))"

text \<open>
  A text is free of tags when no \<open><\<close> has a \<open>>\<close> anywhere after it, so that the
  pattern \<open><[^>]*>\<close> matches nowhere. Its white space is collapsed when every white
  space character is a space, no two of them are adjacent and none stands at either end.
\<close>

fun tagFree :: "js_string \<Rightarrow> bool" where
  "tagFree [] = True"
| "tagFree (c # cs) = ((c = 60 \<longrightarrow> 62 \<notin> set cs) \<and> tagFree cs)"

fun noWhiteSpaceRun :: "js_string \<Rightarrow> bool" where
  "noWhiteSpaceRun (a # b # cs) =
     (\<not> (isWhiteSpace a \<and> isWhiteSpace b) \<and> noWhiteSpaceRun (b # cs))"
| "noWhiteSpaceRun _ = True"

definition whiteSpaceCollapsed :: "js_string \<Rightarrow> bool" where
  "whiteSpaceCollapsed s \<longleftrightarrow>
     (\<forall>c \<in> set s. isWhiteSpace c \<longrightarrow> c = 32) \<and> noWhiteSpaceRun s
     \<and> (s \<noteq> [] \<longrightarrow> \<not> isWhiteSpace (hd s) \<and> \<not> isWhiteSpace (last s))"

text \<open>
  The words of a text: its maximal runs of characters that are neither white space nor
  part of a tag, in their order. \<open>textWords w s\<close> reads \<open>s\<close> with the word \<open>w\<close> begun;
  a tag (a \<open><\<close> up to the first \<open>>\<close> after it) and a white space character both end
  the word. The sanitized form of a text is its words with one space between them, and
  the text \<open>Unknown error\<close> when it has no word.
\<close>

function textWords :: "js_string \<Rightarrow> js_string \<Rightarrow> js_string list" where
  "textWords w [] = [w]"
| "textWords w (c # cs) =
     (if c = 60 \<and> 62 \<in> set cs then w # textWords [] (tl (dropWhile (\<lambda>x. x \<noteq> 62) cs))
      else if isWhiteSpace c then w # textWords [] cs
      else textWords (w @ [c]) cs)"
  by pat_completeness auto
termination
proof (relation "measure (\<lambda>(w, s). length s)")
  fix w :: js_string and c :: nat and cs :: "nat list"
  have "length (dropWhile (\<lambda>x. x \<noteq> 62) cs) \<le> length cs"
    by (rule length_dropWhile_le)
  then show "(([], tl (dropWhile (\<lambda>x. x \<noteq> 62) cs)), (w, c # cs))
      \<in> measure (\<lambda>(w, s). length s)"
    by simp
qed simp_all

definition reasonWords :: "js_string \<Rightarrow> js_string list" where
  "reasonWords s = filter (\<lambda>w. w \<noteq> []) (textWords [] s)"

definition sanitizedText :: "js_string \<Rightarrow> js_string" where
  "sanitizedText s =
     (if reasonWords s = [] then js ''Unknown error'' else join (js '' '') (reasonWords s))"

text \<open>
  The text of a failure of the HTTP interaction, where it has one. A thrown string is
  its own text, an \<open>Error\<close> has its message, another value the text that
  \<open>JSON.stringify\<close> or else \<open>String\<close> gives. A response with a status outside 200 to
  299 has its status, a space and its status text, followed by \<open> - \<close> and its body
  when that can be read and is not empty. A body from which no identifier is parsed
  has a fixed text; a body with identifiers is no failure.
\<close>

fun thrownText :: "thrown \<Rightarrow> js_string option" where
  "thrownText (ThrownString s) = Some s"
| "thrownText (ThrownError (Some m)) = Some m"
| "thrownText (ThrownOther (Stringified s)) = Some s"
| "thrownText (ThrownOther (StringifyThrew (Some s))) = Some s"
| "thrownText _ = None"

text \<open>
  The entry shapes in the words of the specification: a bare string, or an object with
  an \<open>id\<close>, \<open>model\<close> or \<open>name\<close> string field, tried in that order; entries that give
  no non-empty string are dropped and the others keep their order.
\<close>

fun firstStringField :: "json \<Rightarrow> js_string list \<Rightarrow> js_string option" where
  "firstStringField e [] = None"
| "firstStringField e (k # ks) =
     (case getProp e k of Some (JString s) \<Rightarrow> Some s | _ \<Rightarrow> firstStringField e ks)"

fun specEntryId :: "json \<Rightarrow> js_string option" where
  "specEntryId (JString s) = Some s"
| "specEntryId (JObject kvs) =
     firstStringField (JObject kvs) [js ''id'', js ''model'', js ''name'']"
| "specEntryId _ = None"

definition specModelIds :: "json list \<Rightarrow> js_string list" where
  "specModelIds entries = filter (\<lambda>s. s \<noteq> []) (List.map_filter specEntryId entries)"

text \<open>
  The same with the first field that is present and not \<open>null\<close> in the place of the
  first string field: the entry is kept when that field holds a non-empty string.
\<close>

fun firstPresentField :: "json \<Rightarrow> js_string list \<Rightarrow> json option" where
  "firstPresentField e [] = None"
| "firstPresentField e (k # ks) =
     (case getProp e k of
        None \<Rightarrow> firstPresentField e ks
      | Some JNull \<Rightarrow> firstPresentField e ks
      | Some v \<Rightarrow> Some v)"

fun presentEntryId :: "json \<Rightarrow> js_string option" where
  "presentEntryId (JString s) = Some s"
| "presentEntryId (JObject kvs) =
     (case firstPresentField (JObject kvs) [js ''id'', js ''model'', js ''name''] of
        Some (JString s) \<Rightarrow> Some s
      | _ \<Rightarrow> None)"
| "presentEntryId _ = None"

definition presentModelIds :: "json list \<Rightarrow> js_string list" where
  "presentModelIds entries = filter (\<lambda>s. s \<noteq> []) (List.map_filter presentEntryId entries)"

text \<open>An entry whose \<open>id\<close>, \<open>model\<close> and \<open>name\<close> are each absent, \<open>null\<close> or a string.\<close>

fun textual :: "json option \<Rightarrow> bool" where
  "textual None = True"
| "textual (Some JNull) = True"
| "textual (Some (JString s)) = True"
| "textual _ = False"

definition textualFields :: "json \<Rightarrow> bool" where
  "textualFields e \<longleftrightarrow>
     textual (getProp e (js ''id'')) \<and> textual (getProp e (js ''model''))
     \<and> textual (getProp e (js ''name''))"

text \<open>The entries of a body: the elements of its \<open>data\<close> array, none when it has no such array.\<close>

fun dataEntries :: "json \<Rightarrow> json list" where
  "dataEntries (JObject kvs) =
     (case map_of (rev kvs) (js ''data'') of Some (JArray entries) \<Rightarrow> entries | _ \<Rightarrow> [])"
| "dataEntries _ = []"

definition failureText :: "thrown + Response \<Rightarrow> js_string option" where
  "failureText outcome =
     (case outcome of
        Inl t \<Rightarrow> thrownText t
      | Inr response \<Rightarrow>
          if 200 \<le> status response \<and> status response \<le> 299 then
            (case jsonResult response of
               Inl t \<Rightarrow> thrownText t
             | Inr body \<Rightarrow>
                 if presentModelIds (dataEntries body) = []
                 then Some (js ''Empty or unsupported MiniMax models response payload'')
                 else None)
          else
            Some (toDecimal (status response) @ js '' '' @ statusText response
                  @ (case textResult response of
                       None \<Rightarrow> []
                     | Some body \<Rightarrow> if body = [] then [] else js '' - '' @ body)))"

section \<open>Cost calculation and usage report\<close>

text \<open>
  The equations that evaluate the arithmetic of doubles on given numbers, and the doubles
  of some decimal literals.
\<close>

lemmas number_eval = roundToDouble_def floorLog2_def roundHalfEven_def nearest_def lit_def
  bitLength.simps canonical.simps plus_number_def times_number_def minus_number_def
  uminus_number_def mulNumber_def zero_number_def Let_def




text \<open>
  The two examples of the specification: 1000 sent and 500 received tokens at the rates
  0.001 and 0.002 cost 2, and 100 cache-write tokens of a model without a cache-write
  rate are billed at the input rate. Three tokens at the rate 0.1 cost
  0.30000000000000004, which is not the double of 0.3.
\<close>

lemma calculateMiniMaxCost_examples:
  "calculateMiniMaxCost
     \<lparr>inputCostPerToken = Some (lit 1 1000), outputCostPerToken = Some (lit 2 1000),
      cacheWriteInputTokenCost = None, cacheReadInputTokenCost = None,
      modelId = js ''MiniMax-M2'', providerId = js ''minimax''\<rparr>
     (lit 1000 1) (lit 500 1) (Some 0) (Some 0) = lit 2 1"
  "calculateMiniMaxCost
     \<lparr>inputCostPerToken = Some (lit 1 1000), outputCostPerToken = Some (lit 2 1000),
      cacheWriteInputTokenCost = None, cacheReadInputTokenCost = None,
      modelId = js ''MiniMax-M2'', providerId = js ''minimax''\<rparr>
     0 0 (Some (lit 100 1)) (Some 0) = lit 100 1 * lit 1 1000"
  "calculateMiniMaxCost
     \<lparr>inputCostPerToken = Some (lit 1 10), outputCostPerToken = None,
      cacheWriteInputTokenCost = None, cacheReadInputTokenCost = None,
      modelId = js ''MiniMax-M2'', providerId = js ''minimax''\<rparr>
     (lit 3 1) 0 (Some 0) (Some 0) = lit 30000000000000004 100000000000000000"
  "lit 30000000000000004 100000000000000000 \<noteq> lit 3 10"
  by (simp_all add: calculateMiniMaxCost_def number_eval)

text \<open>
  Claim C5. In the usage report, the cache-read tokens are the metadata's
  \<open>anthropic.cacheReadInputTokens\<close> when present, else the usage snapshot's
  \<open>cachedInputTokens\<close>, else 0; the cache-write tokens are the metadata's
  \<open>anthropic.cacheCreationInputTokens\<close>, else 0; the received tokens are the output
  tokens and the sent tokens are the input tokens minus the cache-read tokens, without
  clamping (an absent count, and one that is NaN or a zero, is read as 0). The message
  cost is \<open>calculateMiniMaxCost\<close> of the model and these four counts, and the running
  total is the task's prior total plus that cost. For the usage
  \<open>{inputTokens: 1000, outputTokens: 200}\<close>, the metadata
  \<open>{anthropic: {cacheReadInputTokens: 300}}\<close> and the prior total 5, the sent tokens are
  700 and the running total is 5 plus the cost of 700 sent, 200 received, 0 cache-write
  and 300 cache-read tokens; at the rates 0.001 and 0.002 that total is 6.1. With 100
  input tokens and 300 cached ones the sent tokens are -200.
\<close>

theorem getMiniMaxUsageReport_tokens:
  "cacheReadTokens (getMiniMaxUsageReport tsk profile mdl usage providerMetadata)
     = (case Option.bind (Option.bind providerMetadata anthropic) cacheReadInputTokens of
          Some n \<Rightarrow> n
        | None \<Rightarrow> (case cachedInputTokens usage of Some n \<Rightarrow> n | None \<Rightarrow> 0))
   \<and> cacheWriteTokens (getMiniMaxUsageReport tsk profile mdl usage providerMetadata)
     = (case Option.bind (Option.bind providerMetadata anthropic) cacheCreationInputTokens of
          Some n \<Rightarrow> n
        | None \<Rightarrow> 0)
   \<and> receivedTokens (getMiniMaxUsageReport tsk profile mdl usage providerMetadata)
     = (case outputTokens usage of
          None \<Rightarrow> 0
        | Some n \<Rightarrow> if falsyNumber n then 0 else n)
   \<and> sentTokens (getMiniMaxUsageReport tsk profile mdl usage providerMetadata)
     = (case inputTokens usage of
          None \<Rightarrow> 0
        | Some n \<Rightarrow> if falsyNumber n then 0 else n)
       - cacheReadTokens (getMiniMaxUsageReport tsk profile mdl usage providerMetadata)
   \<and> messageCost (getMiniMaxUsageReport tsk profile mdl usage providerMetadata)
     = calculateMiniMaxCost mdl
         (sentTokens (getMiniMaxUsageReport tsk profile mdl usage providerMetadata))
         (receivedTokens (getMiniMaxUsageReport tsk profile mdl usage providerMetadata))
         (Some (cacheWriteTokens (getMiniMaxUsageReport tsk profile mdl usage providerMetadata)))
         (Some (cacheReadTokens (getMiniMaxUsageReport tsk profile mdl usage providerMetadata)))
   \<and> agentTotalCost (getMiniMaxUsageReport tsk profile mdl usage providerMetadata)
     = TaskData.agentTotalCost (task tsk)
       + calculateMiniMaxCost mdl
           (sentTokens (getMiniMaxUsageReport tsk profile mdl usage providerMetadata))
           (receivedTokens (getMiniMaxUsageReport tsk profile mdl usage providerMetadata))
           (Some (cacheWriteTokens (getMiniMaxUsageReport tsk profile mdl usage providerMetadata)))
           (Some (cacheReadTokens (getMiniMaxUsageReport tsk profile mdl usage providerMetadata)))
   \<and> getMiniMaxUsageReport (tsk\<lparr>task := \<lparr>TaskData.agentTotalCost = lit 5 1\<rparr>\<rparr>) profile mdl
        \<lparr>inputTokens = Some (lit 1000 1), outputTokens = Some (lit 200 1),
         cachedInputTokens = None\<rparr>
        (Some \<lparr>anthropic = Some \<lparr>cacheCreationInputTokens = None,
                                  cacheReadInputTokens = Some (lit 300 1)\<rparr>\<rparr>)
     = \<lparr>model = profileId profile @ js ''/'' @ modelId mdl,
        sentTokens = lit 700 1, receivedTokens = lit 200 1,
        cacheWriteTokens = 0, cacheReadTokens = lit 300 1,
        messageCost = calculateMiniMaxCost mdl (lit 700 1) (lit 200 1) (Some 0)
                        (Some (lit 300 1)),
        agentTotalCost = lit 5 1 + calculateMiniMaxCost mdl (lit 700 1) (lit 200 1) (Some 0)
                        (Some (lit 300 1))\<rparr>
   \<and> agentTotalCost (getMiniMaxUsageReport (tsk\<lparr>task := \<lparr>TaskData.agentTotalCost = lit 5 1\<rparr>\<rparr>)
        profile
        \<lparr>inputCostPerToken = Some (lit 1 1000), outputCostPerToken = Some (lit 2 1000),
         cacheWriteInputTokenCost = None, cacheReadInputTokenCost = None,
         modelId = js ''MiniMax-M2'', providerId = js ''minimax''\<rparr>
        \<lparr>inputTokens = Some (lit 1000 1), outputTokens = Some (lit 200 1),
         cachedInputTokens = None\<rparr>
        (Some \<lparr>anthropic = Some \<lparr>cacheCreationInputTokens = None,
                                  cacheReadInputTokens = Some (lit 300 1)\<rparr>\<rparr>))
     = lit 61 10
   \<and> sentTokens (getMiniMaxUsageReport tsk profile mdl
        \<lparr>inputTokens = Some (lit 100 1), outputTokens = Some (lit 200 1),
         cachedInputTokens = Some (lit 300 1)\<rparr>
        None) = lit (- 200) 1"
proof -
  have numbers: "lit 1000 1 = Finite 125 3" "lit 300 1 = Finite 75 2"
    "lit 700 1 = Finite 175 2" "lit 200 1 = Finite 25 3" "lit 100 1 = Finite 25 2"
    "lit (- 200) 1 = Finite (- 25) 3" "lit 5 1 = Finite 5 0"
    "lit 61 10 = Finite 3433994715870003 (- 49)"
    "lit 1 1000 = Finite 1152921504606847 (- 60)"
    "lit 2 1000 = Finite 1152921504606847 (- 59)"
    by (simp_all add: number_eval)
  have sent: "Finite 125 3 - Finite 75 2 = Finite 175 2"
    "Finite 25 2 - Finite 75 2 = Finite (- 25) 3"
    by (simp_all add: number_eval)
  have cost: "calculateMiniMaxCost
        \<lparr>inputCostPerToken = Some (Finite 1152921504606847 (- 60)),
         outputCostPerToken = Some (Finite 1152921504606847 (- 59)),
         cacheWriteInputTokenCost = None, cacheReadInputTokenCost = None,
         modelId = js ''MiniMax-M2'', providerId = js ''minimax''\<rparr>
        (Finite 175 2) (Finite 25 3) (Some 0) (Some (Finite 75 2))
      = Finite 2476979795053773 (- 51)"
    by (simp add: calculateMiniMaxCost_def number_eval)
  have total: "Finite 5 0 + Finite 2476979795053773 (- 51) = Finite 3433994715870003 (- 49)"
    by (simp add: number_eval)
  have general: "cacheReadTokens (getMiniMaxUsageReport tsk profile mdl usage providerMetadata)
     = (case Option.bind (Option.bind providerMetadata anthropic) cacheReadInputTokens of
          Some n \<Rightarrow> n
        | None \<Rightarrow> (case cachedInputTokens usage of Some n \<Rightarrow> n | None \<Rightarrow> 0))"
    "cacheWriteTokens (getMiniMaxUsageReport tsk profile mdl usage providerMetadata)
     = (case Option.bind (Option.bind providerMetadata anthropic) cacheCreationInputTokens of
          Some n \<Rightarrow> n
        | None \<Rightarrow> 0)"
    "receivedTokens (getMiniMaxUsageReport tsk profile mdl usage providerMetadata)
     = (case outputTokens usage of
          None \<Rightarrow> 0
        | Some n \<Rightarrow> if falsyNumber n then 0 else n)"
    "sentTokens (getMiniMaxUsageReport tsk profile mdl usage providerMetadata)
     = (case inputTokens usage of
          None \<Rightarrow> 0
        | Some n \<Rightarrow> if falsyNumber n then 0 else n)
       - cacheReadTokens (getMiniMaxUsageReport tsk profile mdl usage providerMetadata)"
    by (cases providerMetadata; cases "inputTokens usage"; cases "outputTokens usage";
        simp add: getMiniMaxUsageReport_def Let_def split: option.splits)+
  have costs: "messageCost (getMiniMaxUsageReport tsk profile mdl usage providerMetadata)
     = calculateMiniMaxCost mdl
         (sentTokens (getMiniMaxUsageReport tsk profile mdl usage providerMetadata))
         (receivedTokens (getMiniMaxUsageReport tsk profile mdl usage providerMetadata))
         (Some (cacheWriteTokens (getMiniMaxUsageReport tsk profile mdl usage providerMetadata)))
         (Some (cacheReadTokens (getMiniMaxUsageReport tsk profile mdl usage providerMetadata)))"
    "agentTotalCost (getMiniMaxUsageReport tsk profile mdl usage providerMetadata)
     = TaskData.agentTotalCost (task tsk)
       + calculateMiniMaxCost mdl
           (sentTokens (getMiniMaxUsageReport tsk profile mdl usage providerMetadata))
           (receivedTokens (getMiniMaxUsageReport tsk profile mdl usage providerMetadata))
           (Some (cacheWriteTokens (getMiniMaxUsageReport tsk profile mdl usage providerMetadata)))
           (Some (cacheReadTokens (getMiniMaxUsageReport tsk profile mdl usage providerMetadata)))"
    by (simp_all add: getMiniMaxUsageReport_def Let_def)
  have truthy: "\<not> falsyNumber (Finite 125 3)" "\<not> falsyNumber (Finite 25 3)"
    "\<not> falsyNumber (Finite 25 2)"
    by (simp_all add: falsyNumber_def)
  have example: "getMiniMaxUsageReport (tsk\<lparr>task := \<lparr>TaskData.agentTotalCost = lit 5 1\<rparr>\<rparr>) profile m
        \<lparr>inputTokens = Some (lit 1000 1), outputTokens = Some (lit 200 1),
         cachedInputTokens = None\<rparr>
        (Some \<lparr>anthropic = Some \<lparr>cacheCreationInputTokens = None,
                                  cacheReadInputTokens = Some (lit 300 1)\<rparr>\<rparr>)
     = \<lparr>model = profileId profile @ js ''/'' @ modelId m,
        sentTokens = lit 700 1, receivedTokens = lit 200 1,
        cacheWriteTokens = 0, cacheReadTokens = lit 300 1,
        messageCost = calculateMiniMaxCost m (lit 700 1) (lit 200 1) (Some 0)
                        (Some (lit 300 1)),
        agentTotalCost = lit 5 1 + calculateMiniMaxCost m (lit 700 1) (lit 200 1) (Some 0)
                        (Some (lit 300 1))\<rparr>" for m
    unfolding numbers by (simp add: getMiniMaxUsageReport_def Let_def truthy sent)
  have priced: "agentTotalCost (getMiniMaxUsageReport (tsk\<lparr>task := \<lparr>TaskData.agentTotalCost = lit 5 1\<rparr>\<rparr>)
        profile
        \<lparr>inputCostPerToken = Some (lit 1 1000), outputCostPerToken = Some (lit 2 1000),
         cacheWriteInputTokenCost = None, cacheReadInputTokenCost = None,
         modelId = js ''MiniMax-M2'', providerId = js ''minimax''\<rparr>
        \<lparr>inputTokens = Some (lit 1000 1), outputTokens = Some (lit 200 1),
         cachedInputTokens = None\<rparr>
        (Some \<lparr>anthropic = Some \<lparr>cacheCreationInputTokens = None,
                                  cacheReadInputTokens = Some (lit 300 1)\<rparr>\<rparr>))
     = lit 61 10"
    unfolding example unfolding numbers by (simp add: cost total)
  have negative: "sentTokens (getMiniMaxUsageReport tsk profile mdl
        \<lparr>inputTokens = Some (lit 100 1), outputTokens = Some (lit 200 1),
         cachedInputTokens = Some (lit 300 1)\<rparr>
        None) = lit (- 200) 1"
    unfolding numbers by (simp add: getMiniMaxUsageReport_def Let_def truthy sent)
  show ?thesis
    by (intro conjI general costs example priced negative)
qed

text \<open>
  Claim C10. The \<open>model\<close> field of the usage report is the provider profile's
  identifier, a slash, and the model's identifier, in that order.
\<close>

theorem getMiniMaxUsageReport_model:
  "model (getMiniMaxUsageReport tsk profile mdl usage providerMetadata)
     = profileId profile @ js ''/'' @ modelId mdl"
  by (simp add: getMiniMaxUsageReport_def Let_def)

section \<open>Mapping for the external tool\<close>

text \<open>
  Claim C7. For every profile and model identifier, the environment variables of the
  mapping bind \<open>ANTHROPIC_API_URL\<close> to the fixed base URL, bind \<open>ANTHROPIC_API_KEY\<close>
  exactly when the profile carries a (non-empty) explicit key, and then to that key,
  and bind nothing else; the model name is the identifier prefixed with \<open>anthropic/\<close>.
  The operation has no access to the environment: its only inputs are the profile and
  the identifier.
\<close>

theorem getMiniMaxAiderMapping_env:
  "environmentVariables (getMiniMaxAiderMapping profile mid) (js ''ANTHROPIC_API_URL'')
     = Some (js ''https://api.minimax.io/anthropic'')
   \<and> environmentVariables (getMiniMaxAiderMapping profile mid) (js ''ANTHROPIC_API_KEY'')
     = (case apiKey (provider profile) of
          None \<Rightarrow> None
        | Some k \<Rightarrow> if k = [] then None else Some k)
   \<and> dom (environmentVariables (getMiniMaxAiderMapping profile mid))
       \<subseteq> {js ''ANTHROPIC_API_URL'', js ''ANTHROPIC_API_KEY''}
   \<and> modelName (getMiniMaxAiderMapping profile mid) = js ''anthropic/'' @ mid"
  by (cases "apiKey (provider profile)")
     (auto simp add: getMiniMaxAiderMapping_def Let_def MINIMAX_BASE_URL_def js_def)

section \<open>Sanitizing the reason of a fallback\<close>

text \<open>
  Stripping the tags leaves a text free of tags; collapsing the white space and trimming
  keep it so, since they only remove characters or put spaces in their place.
\<close>

lemma set_stripTags: "set (stripTags s) \<subseteq> insert 32 (set s)"
proof (induction s rule: stripTags.induct)
  case 1
  show ?case by simp
next
  case (2 c cs)
  have sub: "set (tl (dropWhile (\<lambda>x. x \<noteq> 62) cs)) \<subseteq> set cs"
    by (metis list.set_sel(2) set_dropWhileD subsetI tl_Nil)
  show ?case
  proof (cases "c = 60 \<and> 62 \<in> set cs")
    case True
    with 2 sub show ?thesis by auto
  next
    case False
    with 2 show ?thesis by auto
  qed
qed

lemma tagFree_stripTags: "tagFree (stripTags s)"
proof (induction s rule: stripTags.induct)
  case 1
  show ?case by simp
next
  case (2 c cs)
  show ?case
  proof (cases "c = 60 \<and> 62 \<in> set cs")
    case True
    with 2 show ?thesis by simp
  next
    case False
    have "62 \<notin> set (stripTags cs)" if "62 \<notin> set cs"
      using that set_stripTags [of cs] by auto
    with False 2 show ?thesis by auto
  qed
qed

lemma tagFree_append:
  "tagFree (xs @ ys) \<longleftrightarrow> tagFree xs \<and> tagFree ys \<and> (60 \<in> set xs \<longrightarrow> 62 \<notin> set ys)"
  by (induction xs) auto

lemma set_collapseWhiteSpace: "set (collapseWhiteSpace s) \<subseteq> insert 32 (set s)"
proof (induction s rule: collapseWhiteSpace.induct)
  case 1
  show ?case by simp
next
  case (2 c cs)
  have "set (dropWhile isWhiteSpace cs) \<subseteq> set cs"
    by (auto dest: set_dropWhileD)
  with 2 show ?case by (cases "isWhiteSpace c") auto
qed

lemma tagFree_dropWhile: "tagFree s \<Longrightarrow> tagFree (dropWhile P s)"
  by (induction s) auto

lemma tagFree_collapseWhiteSpace: "tagFree s \<Longrightarrow> tagFree (collapseWhiteSpace s)"
proof (induction s rule: collapseWhiteSpace.induct)
  case 1
  show ?case by simp
next
  case (2 c cs)
  show ?case
  proof (cases "isWhiteSpace c")
    case True
    with 2 show ?thesis by (simp add: tagFree_dropWhile)
  next
    case False
    have "62 \<notin> set (collapseWhiteSpace cs)" if "62 \<notin> set cs"
      using that set_collapseWhiteSpace [of cs] by auto
    with False 2 show ?thesis by auto
  qed
qed

lemma trim_prefix: "\<exists>zs. dropWhile isWhiteSpace s = trim s @ zs"
proof -
  have "rev (dropWhile isWhiteSpace (rev (dropWhile isWhiteSpace s)))
          @ rev (takeWhile isWhiteSpace (rev (dropWhile isWhiteSpace s)))
        = dropWhile isWhiteSpace s"
    by (metis rev_append rev_rev_ident takeWhile_dropWhile_id)
  then show ?thesis by (metis trim_def)
qed

lemma tagFree_trim: "tagFree s \<Longrightarrow> tagFree (trim s)"
proof -
  assume "tagFree s"
  then have "tagFree (dropWhile isWhiteSpace s)" by (rule tagFree_dropWhile)
  moreover obtain zs where "dropWhile isWhiteSpace s = trim s @ zs"
    using trim_prefix by blast
  ultimately show ?thesis by (simp add: tagFree_append)
qed

lemma spaces_collapseWhiteSpace:
  "c \<in> set (collapseWhiteSpace s) \<Longrightarrow> isWhiteSpace c \<Longrightarrow> c = 32"
proof (induction s rule: collapseWhiteSpace.induct)
  case 1
  then show ?case by simp
next
  case (2 d ds)
  then show ?case by (cases "isWhiteSpace d") auto
qed

lemma hd_collapseWhiteSpace:
  "s \<noteq> [] \<Longrightarrow> \<not> isWhiteSpace (hd s) \<Longrightarrow>
     collapseWhiteSpace s \<noteq> [] \<and> hd (collapseWhiteSpace s) = hd s"
  by (cases s) auto

lemma noWhiteSpaceRun_Cons:
  "noWhiteSpaceRun (a # s) \<longleftrightarrow>
     (s = [] \<or> \<not> (isWhiteSpace a \<and> isWhiteSpace (hd s))) \<and> noWhiteSpaceRun s"
  by (cases s) auto

lemma noWhiteSpaceRun_collapseWhiteSpace: "noWhiteSpaceRun (collapseWhiteSpace s)"
proof (induction s rule: collapseWhiteSpace.induct)
  case 1
  show ?case by simp
next
  case (2 c cs)
  show ?case
  proof (cases "isWhiteSpace c")
    case True
    let ?r = "dropWhile isWhiteSpace cs"
    have "collapseWhiteSpace ?r = [] \<or> \<not> isWhiteSpace (hd (collapseWhiteSpace ?r))"
    proof (cases "?r = []")
      case rnil: True
      then have "collapseWhiteSpace ?r = []" by (simp only: collapseWhiteSpace.simps)
      then show ?thesis by (rule disjI1)
    next
      case rcons: False
      then have "\<not> isWhiteSpace (hd ?r)" by (rule hd_dropWhile)
      with rcons show ?thesis using hd_collapseWhiteSpace [of ?r] by metis
    qed
    with True 2 show ?thesis by (auto simp add: noWhiteSpaceRun_Cons)
  next
    case False
    with 2 show ?thesis by (simp add: noWhiteSpaceRun_Cons)
  qed
qed

lemma noWhiteSpaceRun_append:
  "noWhiteSpaceRun (xs @ ys) \<Longrightarrow> noWhiteSpaceRun xs \<and> noWhiteSpaceRun ys"
proof (induction xs)
  case Nil
  then show ?case by simp
next
  case (Cons a xs)
  then show ?case by (cases xs) (auto simp add: noWhiteSpaceRun_Cons)
qed

lemma noWhiteSpaceRun_dropWhile: "noWhiteSpaceRun s \<Longrightarrow> noWhiteSpaceRun (dropWhile P s)"
  by (metis noWhiteSpaceRun_append takeWhile_dropWhile_id)

lemma whiteSpaceCollapsed_trim:
  assumes "\<forall>c \<in> set s. isWhiteSpace c \<longrightarrow> c = 32" and "noWhiteSpaceRun s"
  shows "whiteSpaceCollapsed (trim s)"
proof -
  obtain zs where zs: "dropWhile isWhiteSpace s = trim s @ zs"
    using trim_prefix by blast
  have sub: "set (trim s) \<subseteq> set s"
    by (metis Un_upper1 zs set_append set_dropWhileD subsetI subset_trans)
  have run: "noWhiteSpaceRun (trim s)"
    using assms(2) zs noWhiteSpaceRun_dropWhile [of s isWhiteSpace] noWhiteSpaceRun_append
    by metis
  have ends: "\<not> isWhiteSpace (hd (trim s)) \<and> \<not> isWhiteSpace (last (trim s))" if ne: "trim s \<noteq> []"
  proof
    from ne zs have "dropWhile isWhiteSpace s \<noteq> []" by auto
    then have "\<not> isWhiteSpace (hd (dropWhile isWhiteSpace s))" by (rule hd_dropWhile)
    with ne zs show "\<not> isWhiteSpace (hd (trim s))" by simp
    from ne have "dropWhile isWhiteSpace (rev (dropWhile isWhiteSpace s)) \<noteq> []"
      by (simp add: trim_def)
    then have "\<not> isWhiteSpace (hd (dropWhile isWhiteSpace (rev (dropWhile isWhiteSpace s))))"
      by (rule hd_dropWhile)
    with ne show "\<not> isWhiteSpace (last (trim s))"
      by (simp add: trim_def last_rev)
  qed
  from assms(1) sub run ends show ?thesis
    unfolding whiteSpaceCollapsed_def by blast
qed

lemma sanitized_shape:
  "tagFree (trim (collapseWhiteSpace (stripTags r)))
   \<and> whiteSpaceCollapsed (trim (collapseWhiteSpace (stripTags r)))"
  using tagFree_trim [OF tagFree_collapseWhiteSpace [OF tagFree_stripTags]]
    whiteSpaceCollapsed_trim [of "collapseWhiteSpace (stripTags r)"]
    spaces_collapseWhiteSpace noWhiteSpaceRun_collapseWhiteSpace
  by blast

lemma unknown_error_shape:
  "tagFree (js ''Unknown error'') \<and> whiteSpaceCollapsed (js ''Unknown error'')"
  by (simp add: js_def whiteSpaceCollapsed_def isWhiteSpace_def)

text \<open>
  The three replacements of \<open>sanitizeReason\<close> keep the words of a text, and a text that
  is free of tags and whose white space is collapsed is its words joined by single
  spaces. So the sanitized reason is the words of the reason joined by single spaces.
\<close>

lemma isWhiteSpace_brackets [simp]: "\<not> isWhiteSpace 60" "\<not> isWhiteSpace 62" "isWhiteSpace 32"
  by (simp_all add: isWhiteSpace_def)

lemma textWords_not_Nil: "textWords w s \<noteq> []"
  by (induction w s rule: textWords.induct) auto

lemma words_stripTags:
  "textWords w (stripTags s) = textWords w s"
proof (induction s arbitrary: w rule: stripTags.induct)
  case 1
  show ?case by simp
next
  case (2 c cs)
  show ?case
  proof (cases "c = 60 \<and> 62 \<in> set cs")
    case True
    with 2 show ?thesis by simp
  next
    case False
    have "62 \<notin> set (stripTags cs)" if "62 \<notin> set cs"
      using that set_stripTags [of cs] by auto
    with False 2 show ?thesis by auto
  qed
qed

lemma words_leading:
  "filter (\<lambda>w. w \<noteq> []) (textWords [] (dropWhile isWhiteSpace s))
     = filter (\<lambda>w. w \<noteq> []) (textWords [] s)"
proof (induction s)
  case Nil
  show ?case by simp
next
  case (Cons c cs)
  show ?case
  proof (cases "isWhiteSpace c")
    case True
    then have "c \<noteq> 60" by auto
    with True Cons show ?thesis by simp
  next
    case False
    then show ?thesis by simp
  qed
qed

lemma words_collapseWhiteSpace:
  "tagFree s \<Longrightarrow>
     filter (\<lambda>w. w \<noteq> []) (textWords w (collapseWhiteSpace s))
       = filter (\<lambda>w. w \<noteq> []) (textWords w s)"
proof (induction s arbitrary: w rule: collapseWhiteSpace.induct)
  case 1
  show ?case by simp
next
  case (2 c cs)
  show ?case
  proof (cases "isWhiteSpace c")
    case True
    then have c: "c \<noteq> 60" by auto
    from "2.prems" have "tagFree (dropWhile isWhiteSpace cs)"
      by (simp add: tagFree_dropWhile)
    with True 2 have "filter (\<lambda>w. w \<noteq> []) (textWords [] (collapseWhiteSpace (dropWhile isWhiteSpace cs)))
        = filter (\<lambda>w. w \<noteq> []) (textWords [] (dropWhile isWhiteSpace cs))"
      by simp
    with True c show ?thesis by (simp add: words_leading)
  next
    case False
    have "62 \<notin> set (collapseWhiteSpace cs)" if "62 \<notin> set cs"
      using that set_collapseWhiteSpace [of cs] by auto
    with False 2 show ?thesis by auto
  qed
qed

lemma words_trailing_spaces:
  "\<forall>c \<in> set zs. isWhiteSpace c \<Longrightarrow>
     filter (\<lambda>w. w \<noteq> []) (textWords w zs) = filter (\<lambda>w. w \<noteq> []) [w]"
proof (induction zs arbitrary: w)
  case Nil
  show ?case by simp
next
  case (Cons c zs)
  then have "c \<noteq> 60" by auto
  with Cons show ?case by simp
qed

lemma words_trailing:
  "tagFree m \<Longrightarrow> \<forall>c \<in> set zs. isWhiteSpace c \<Longrightarrow>
     filter (\<lambda>w. w \<noteq> []) (textWords w (m @ zs)) = filter (\<lambda>w. w \<noteq> []) (textWords w m)"
proof (induction m arbitrary: w)
  case Nil
  then show ?case by (simp add: words_trailing_spaces)
next
  case (Cons c m)
  from Cons.prems have zs: "62 \<notin> set zs" by auto
  from Cons.prems have "c = 60 \<longrightarrow> 62 \<notin> set m" by simp
  with zs Cons show ?case by auto
qed

lemma trim_split:
  "\<exists>zs. dropWhile isWhiteSpace s = trim s @ zs \<and> (\<forall>c \<in> set zs. isWhiteSpace c)"
proof -
  let ?t = "dropWhile isWhiteSpace s"
  have "rev (dropWhile isWhiteSpace (rev ?t)) @ rev (takeWhile isWhiteSpace (rev ?t)) = ?t"
    by (metis rev_append rev_rev_ident takeWhile_dropWhile_id)
  moreover have "\<forall>c \<in> set (rev (takeWhile isWhiteSpace (rev ?t))). isWhiteSpace c"
    by (auto dest: set_takeWhileD)
  ultimately show ?thesis by (metis trim_def)
qed

lemma words_trim:
  assumes "tagFree s"
  shows "filter (\<lambda>w. w \<noteq> []) (textWords [] (trim s)) = filter (\<lambda>w. w \<noteq> []) (textWords [] s)"
proof -
  obtain zs where zs: "dropWhile isWhiteSpace s = trim s @ zs" "\<forall>c \<in> set zs. isWhiteSpace c"
    using trim_split by blast
  have "tagFree (trim s)" using assms by (rule tagFree_trim)
  then have "filter (\<lambda>w. w \<noteq> []) (textWords [] (trim s @ zs))
      = filter (\<lambda>w. w \<noteq> []) (textWords [] (trim s))"
    using zs(2) by (rule words_trailing)
  then have "filter (\<lambda>w. w \<noteq> []) (textWords [] (trim s))
      = filter (\<lambda>w. w \<noteq> []) (textWords [] (dropWhile isWhiteSpace s))"
    by (simp only: zs(1))
  also have "\<dots> = filter (\<lambda>w. w \<noteq> []) (textWords [] s)"
    by (rule words_leading)
  finally show ?thesis .
qed

lemma join_words:
  assumes "\<forall>c \<in> set t. isWhiteSpace c \<longrightarrow> c = 32" and "noWhiteSpaceRun t"
    and "t \<noteq> [] \<longrightarrow> \<not> isWhiteSpace (last t)" and "tagFree t"
    and "t \<noteq> [] \<and> isWhiteSpace (hd t) \<longrightarrow> w \<noteq> []"
    and "w \<noteq> [] \<or> t \<noteq> []"
  shows "join [32] (textWords w t) = w @ t \<and> (\<forall>x \<in> set (textWords w t). x \<noteq> [])"
  using assms
proof (induction t arbitrary: w)
  case Nil
  then show ?case by simp
next
  case (Cons c cs)
  from Cons.prems(4) have tag: "(c = 60 \<and> 62 \<in> set cs) = False" and tf: "tagFree cs" by auto
  show ?case
  proof (cases "isWhiteSpace c")
    case True
    with Cons.prems have c: "c = 32" and w: "w \<noteq> []" by auto
    from True Cons.prems(3) have cs: "cs \<noteq> []" by auto
    with True Cons.prems(2) have hd: "\<not> isWhiteSpace (hd cs)"
      by (cases cs) auto
    have "join [32] (textWords [] cs) = [] @ cs \<and> (\<forall>x \<in> set (textWords [] cs). x \<noteq> [])"
    proof (rule Cons.IH)
      show "\<forall>c \<in> set cs. isWhiteSpace c \<longrightarrow> c = 32" using Cons.prems(1) by simp
      show "noWhiteSpaceRun cs" using Cons.prems(2) by (cases cs) auto
      show "cs \<noteq> [] \<longrightarrow> \<not> isWhiteSpace (last cs)" using Cons.prems(3) cs by simp
      show "tagFree cs" by (rule tf)
      show "cs \<noteq> [] \<and> isWhiteSpace (hd cs) \<longrightarrow> [] \<noteq> ([] :: js_string)" using hd by simp
      show "[] \<noteq> ([] :: js_string) \<or> cs \<noteq> []" using cs by simp
    qed
    moreover obtain x xs where "textWords [] cs = x # xs"
      using textWords_not_Nil [of "[]" cs] by (cases "textWords [] cs") auto
    ultimately show ?thesis using True c w by (simp add: tag)
  next
    case False
    have "join [32] (textWords (w @ [c]) cs) = (w @ [c]) @ cs
        \<and> (\<forall>x \<in> set (textWords (w @ [c]) cs). x \<noteq> [])"
    proof (rule Cons.IH)
      show "\<forall>c \<in> set cs. isWhiteSpace c \<longrightarrow> c = 32" using Cons.prems(1) by simp
      show "noWhiteSpaceRun cs" using Cons.prems(2) by (cases cs) auto
      show "cs \<noteq> [] \<longrightarrow> \<not> isWhiteSpace (last cs)" using Cons.prems(3) by auto
      show "tagFree cs" by (rule tf)
      show "cs \<noteq> [] \<and> isWhiteSpace (hd cs) \<longrightarrow> w @ [c] \<noteq> []" by simp
      show "w @ [c] \<noteq> [] \<or> cs \<noteq> []" by simp
    qed
    with False show ?thesis by (simp add: tag)
  qed
qed

lemma collapsed_join:
  assumes "whiteSpaceCollapsed t" and "tagFree t"
  shows "join [32] (filter (\<lambda>w. w \<noteq> []) (textWords [] t)) = t"
proof (cases "t = []")
  case True
  then show ?thesis by simp
next
  case False
  with assms have "join [32] (textWords [] t) = [] @ t
      \<and> (\<forall>x \<in> set (textWords [] t). x \<noteq> [])"
    by (intro join_words) (auto simp add: whiteSpaceCollapsed_def)
  then show ?thesis by (simp add: filter_id_conv)
qed

lemma sanitizeReason_words: "sanitizeReason r = join [32] (reasonWords r)"
proof -
  let ?t = "sanitizeReason r"
  have shape: "tagFree ?t" "whiteSpaceCollapsed ?t"
    using sanitized_shape [of r] by (simp_all add: sanitizeReason_def)
  have "filter (\<lambda>w. w \<noteq> []) (textWords [] ?t)
      = filter (\<lambda>w. w \<noteq> []) (textWords [] (collapseWhiteSpace (stripTags r)))"
    unfolding sanitizeReason_def
    by (rule words_trim) (rule tagFree_collapseWhiteSpace, rule tagFree_stripTags)
  also have "\<dots> = filter (\<lambda>w. w \<noteq> []) (textWords [] (stripTags r))"
    by (rule words_collapseWhiteSpace) (rule tagFree_stripTags)
  also have "\<dots> = reasonWords r"
    by (simp add: words_stripTags reasonWords_def)
  finally have "filter (\<lambda>w. w \<noteq> []) (textWords [] ?t) = reasonWords r" .
  with collapsed_join [OF shape(2) shape(1)] show ?thesis by simp
qed

lemma join_Nil_iff: "(\<forall>x \<in> set xs. x \<noteq> []) \<Longrightarrow> join sep xs = [] \<longleftrightarrow> xs = []"
  by (induction sep xs rule: join.induct) auto

lemma sanitized_reason:
  "(if sanitizeReason r = [] then js ''Unknown error'' else sanitizeReason r) = sanitizedText r"
proof -
  have "\<forall>x \<in> set (reasonWords r). x \<noteq> []"
    by (simp add: reasonWords_def)
  then have "join [32] (reasonWords r) = [] \<longleftrightarrow> reasonWords r = []"
    by (rule join_Nil_iff)
  moreover have "js '' '' = [32]"
    by (simp add: js_def)
  ultimately show ?thesis
    by (simp add: sanitizeReason_words sanitizedText_def)
qed

section \<open>Model discovery\<close>

text \<open>
  The fallback returns the models of the static list and logs one warning, whose text
  is fixed but for the sanitized reason.
\<close>

lemma warningText_literal:
  "warningText reason =
     js ''MiniMax models API unavailable ('' @ reason
       @ js ''). Falling back to static MiniMax model list: MiniMax-M2, MiniMax-M2-Stable''"
  by (simp add: warningText_def KNOWN_MINIMAX_MODELS_def js_def)

lemma fallbackToKnownModels_result:
  "fallbackToKnownModels profile modelsInfo reason =
     (\<lparr>models = map (toModel profile modelsInfo) KNOWN_MINIMAX_MODELS,
       success = True, error = None\<rparr>,
      [Warn (warningText (sanitizedText reason))])"
  by (simp add: fallbackToKnownModels_def sanitized_reason Let_def)

text \<open>
  With a key, the operation issues one request with that key, and its result is the one
  of the \<open>try\<close> block or, when that throws, of the \<open>catch\<close> clause.
\<close>

lemma request_key:
  "(if orEmpty e \<noteq> [] then orEmpty e else orEmpty (map_option envValue v)) = resolvedKey e v"
  by (cases e) (simp_all add: resolvedKey_def)

lemma no_key_iff:
  "orEmpty e = [] \<and> falsy (map_option envValue v) \<longleftrightarrow> resolvedKey e v = []"
  by (cases e; cases v) (auto simp add: resolvedKey_def)

lemma loadMiniMaxModels_caught:
  assumes "isMiniMaxProvider (provider profile)"
    and "resolvedKey (apiKey (provider profile))
           (resolve (js ''MINIMAX_API_KEY'') settings None) = k"
    and "k \<noteq> []"
    and "tryBlock fetch profile modelsInfo (modelsRequest k) = Inl t"
    and "catchClause profile modelsInfo t = (res, l)"
  shows "loadMiniMaxModels resolve fetch profile modelsInfo settings =
           \<lparr>returned = res, fetched = [modelsRequest k], logged = l\<rparr>"
  using assms by (simp add: loadMiniMaxModels_def Let_def request_key no_key_iff)

lemma loadMiniMaxModels_tried:
  assumes "isMiniMaxProvider (provider profile)"
    and "resolvedKey (apiKey (provider profile))
           (resolve (js ''MINIMAX_API_KEY'') settings None) = k"
    and "k \<noteq> []"
    and "tryBlock fetch profile modelsInfo (modelsRequest k) = Inr (r, l)"
  shows "loadMiniMaxModels resolve fetch profile modelsInfo settings =
           \<lparr>returned = Inr r, fetched = [modelsRequest k], logged = l\<rparr>"
  using assms by (simp add: loadMiniMaxModels_def Let_def request_key no_key_iff)

text \<open>
  The identifiers parsed from a body are those of the entries of its \<open>data\<close> array,
  each read by the first of \<open>id\<close>, \<open>model\<close> and \<open>name\<close> that is present and not
  \<open>null\<close>.
\<close>

lemma entryId_present: "entryId e = presentEntryId e"
  by (cases e) (simp_all split: option.split json.split)

lemma parse_present:
  "map the (filter usableId (map entryId xs)) = presentModelIds xs"
proof (induction xs)
  case Nil
  show ?case by (simp add: presentModelIds_def List.map_filter_simps)
next
  case (Cons x xs)
  then show ?case
    by (cases "presentEntryId x")
       (simp_all add: presentModelIds_def List.map_filter_simps entryId_present)
qed

lemma parseModelIds_entries: "parseModelIds body = presentModelIds (dataEntries body)"
proof (cases body)
  case (JObject kvs)
  then show ?thesis
    by (simp add: parseModelIds_def parse_present presentModelIds_def
        split: option.split json.split)
qed (simp_all add: parseModelIds_def presentModelIds_def)

text \<open>
  Every failure of the HTTP interaction that has a text ends in the fallback, called
  with that text, whether through the \<open>try\<close> block or through the \<open>catch\<close> clause.
\<close>

lemma thrownText_reason: "thrownText t = Some raw \<Longrightarrow> catchReason t = Inr (Some raw)"
  by (cases t rule: thrownText.cases) simp_all

lemma catchClause_text:
  "thrownText t = Some raw \<Longrightarrow>
     catchClause profile modelsInfo t =
       (Inr \<lparr>models = map (toModel profile modelsInfo) KNOWN_MINIMAX_MODELS,
              success = True, error = None\<rparr>,
        [Warn (warningText (sanitizedText raw))])"
  by (simp add: catchClause_def thrownText_reason fallbackToKnownModels_result)

lemma status_reason:
  "join (js '' - '')
     ([a] @ (if (case b of None \<Rightarrow> [] | Some t \<Rightarrow> t) \<noteq> []
             then [case b of None \<Rightarrow> [] | Some t \<Rightarrow> t] else []))
   = a @ (case b of None \<Rightarrow> [] | Some body \<Rightarrow> if body = [] then [] else js '' - '' @ body)"
  by (cases b) simp_all

lemma tryBlock_failure:
  assumes "failureText (fetch request) = Some raw"
  shows "(\<exists>t. tryBlock fetch profile modelsInfo request = Inl t \<and> thrownText t = Some raw)
       \<or> tryBlock fetch profile modelsInfo request
           = Inr (fallbackToKnownModels profile modelsInfo raw)"
proof (cases "fetch request")
  case (Inl t)
  with assms show ?thesis by (simp add: failureText_def tryBlock_def)
next
  case (Inr response)
  show ?thesis
  proof (cases "ok response")
    case False
    with Inr assms have "raw = toDecimal (status response) @ js '' '' @ statusText response
        @ (case textResult response of None \<Rightarrow> []
           | Some body \<Rightarrow> if body = [] then [] else js '' - '' @ body)"
      by (auto simp add: failureText_def ok_def split: if_splits)
    with Inr False show ?thesis
      using status_reason [of "toDecimal (status response) @ js '' '' @ statusText response"
          "textResult response"]
      by (simp add: tryBlock_def Let_def)
  next
    case True
    show ?thesis
    proof (cases "jsonResult response")
      case (Inl t)
      with Inr True assms show ?thesis by (simp add: failureText_def tryBlock_def ok_def)
    next
      case body: (Inr body)
      with Inr True assms have "presentModelIds (dataEntries body) = []"
        and "raw = js ''Empty or unsupported MiniMax models response payload''"
        by (auto simp add: failureText_def ok_def split: if_splits)
      with Inr True body show ?thesis
        by (simp add: tryBlock_def Let_def parseModelIds_entries)
    qed
  qed
qed

lemma tryBlock_parsed:
  assumes "fetch request = Inr response"
    and "200 \<le> status response" and "status response \<le> 299"
    and "jsonResult response = Inr body"
    and "presentModelIds (dataEntries body) \<noteq> []"
  shows "tryBlock fetch profile modelsInfo request
       = Inr (\<lparr>models = map (toModel profile modelsInfo) (presentModelIds (dataEntries body)),
               success = True, error = None\<rparr>, [])"
  using assms by (simp add: tryBlock_def Let_def ok_def parseModelIds_entries)

lemma loadMiniMaxModels_failure:
  assumes guard: "isMiniMaxProvider (provider profile)"
    and key: "resolvedKey (apiKey (provider profile))
                (resolve (js ''MINIMAX_API_KEY'') settings None) = k"
    and nonempty: "k \<noteq> []"
    and failure: "failureText (fetch (modelsRequest k)) = Some raw"
  shows "loadMiniMaxModels resolve fetch profile modelsInfo settings =
           \<lparr>returned = Inr \<lparr>models = map (toModel profile modelsInfo) KNOWN_MINIMAX_MODELS,
                             success = True, error = None\<rparr>,
            fetched = [modelsRequest k],
            logged = [Warn (warningText (sanitizedText raw))]\<rparr>"
proof -
  from tryBlock_failure [where fetch = fetch and request = "modelsRequest k"
      and profile = profile and modelsInfo = modelsInfo, OF failure]
  show ?thesis
  proof (elim disjE exE conjE)
    fix t
    assume "tryBlock fetch profile modelsInfo (modelsRequest k) = Inl t"
      and "thrownText t = Some raw"
    then show ?thesis
      using loadMiniMaxModels_caught [where resolve = resolve and settings = settings
          and fetch = fetch and profile = profile and k = k, OF guard key nonempty]
        catchClause_text [of t raw profile modelsInfo]
      by simp
  next
    assume "tryBlock fetch profile modelsInfo (modelsRequest k)
        = Inr (fallbackToKnownModels profile modelsInfo raw)"
    then show ?thesis
      using loadMiniMaxModels_tried [where resolve = resolve and settings = settings
          and fetch = fetch and profile = profile and k = k, OF guard key nonempty]
      by (simp add: fallbackToKnownModels_result)
  qed
qed

lemma sanitizedText_shape: "tagFree (sanitizedText raw) \<and> whiteSpaceCollapsed (sanitizedText raw)"
  using sanitized_shape [of raw] unknown_error_shape sanitized_reason [of raw]
  by (cases "sanitizeReason raw = []") (simp_all add: sanitizeReason_def)

lemma modelId_toModel: "modelId (toModel profile modelsInfo mid) = mid"
  by (simp add: toModel_def split: option.split)

text \<open>
  Claim C1. For every MiniMax profile with a non-empty key, explicit or from the
  environment, when the HTTP interaction fails with the text \<open>raw\<close> (a status outside
  200 to 299, with \<open>raw\<close> the status, the status text and the body; a thrown string or
  \<open>Error\<close> with a message, or another thrown value that \<open>JSON.stringify\<close> or \<open>String\<close>
  renders, whether thrown by \<open>fetch\<close> or by \<open>response.json()\<close>; or a body without
  usable identifiers), the operation returns \<open>success = true\<close> with the models built
  from the static identifiers \<open>MiniMax-M2\<close> and \<open>MiniMax-M2-Stable\<close>, in that order,
  after one request carrying the key, and logs exactly one warning: the fixed sentence
  around the sanitized reason, which is the words of \<open>raw\<close> (its maximal runs of
  characters outside tags and white space) joined by single spaces, or \<open>Unknown error\<close>
  when \<open>raw\<close> has no word. That reason is free of tags and its white space is
  collapsed. Nothing is thrown.
\<close>

theorem loadMiniMaxModels_fallback:
  assumes "isMiniMaxProvider (provider profile)"
    and "resolvedKey (apiKey (provider profile))
           (resolve (js ''MINIMAX_API_KEY'') settings None) = k"
    and "k \<noteq> []"
    and "failureText (fetch (modelsRequest k)) = Some raw"
  shows "loadMiniMaxModels resolve fetch profile modelsInfo settings =
           \<lparr>returned = Inr \<lparr>models = map (toModel profile modelsInfo)
                                        [js ''MiniMax-M2'', js ''MiniMax-M2-Stable''],
                             success = True, error = None\<rparr>,
            fetched = [modelsRequest k],
            logged = [Warn (js ''MiniMax models API unavailable ('' @ sanitizedText raw
              @ js ''). Falling back to static MiniMax model list: MiniMax-M2, MiniMax-M2-Stable'')]\<rparr>
         \<and> map modelId (map (toModel profile modelsInfo)
                [js ''MiniMax-M2'', js ''MiniMax-M2-Stable''])
             = [js ''MiniMax-M2'', js ''MiniMax-M2-Stable'']
         \<and> tagFree (sanitizedText raw) \<and> whiteSpaceCollapsed (sanitizedText raw)"
  using loadMiniMaxModels_failure [where resolve = resolve and settings = settings
      and fetch = fetch and profile = profile and k = k, OF assms, of modelsInfo]
    sanitizedText_shape [of raw]
  by (simp add: KNOWN_MINIMAX_MODELS_def modelId_toModel warningText_literal)

text \<open>
  A response with the status 500 and an HTML body: the tags are gone from the warning
  and the runs of spaces are single spaces.
\<close>

theorem loadMiniMaxModels_fallback_witness:
  "loadMiniMaxModels (\<lambda>n (s::unit) d. None)
     (\<lambda>request. Inr \<lparr>status = 500, statusText = js ''Internal Server Error'',
                      textResult = Some (js ''<html><b>Gateway</b>  timed   out</html>''),
                      jsonResult = Inl (ThrownError (Some (js ''Unexpected token'')))\<rparr>)
     \<lparr>profileId = js ''mm'',
      provider = \<lparr>name = js ''minimax'', apiKey = Some (js ''secret'')\<rparr>,
      headers = None\<rparr>
     Map.empty ()
   = \<lparr>returned = Inr \<lparr>models = map (toModel
                \<lparr>profileId = js ''mm'',
                 provider = \<lparr>name = js ''minimax'', apiKey = Some (js ''secret'')\<rparr>,
                 headers = None\<rparr> Map.empty)
              [js ''MiniMax-M2'', js ''MiniMax-M2-Stable''],
           success = True, error = None\<rparr>,
      fetched = [modelsRequest (js ''secret'')],
      logged = [Warn (js ''MiniMax models API unavailable (500 Internal Server Error - Gateway timed out). Falling back to static MiniMax model list: MiniMax-M2, MiniMax-M2-Stable'')]\<rparr>"
proof -
  let ?profile = "\<lparr>profileId = js ''mm'',
        provider = \<lparr>name = js ''minimax'', apiKey = Some (js ''secret'')\<rparr>,
        headers = None\<rparr>"
  let ?response = "\<lparr>status = 500, statusText = js ''Internal Server Error'',
                        textResult = Some (js ''<html><b>Gateway</b>  timed   out</html>''),
                        jsonResult = Inl (ThrownError (Some (js ''Unexpected token'')))\<rparr>"
  let ?raw = "js ''500 Internal Server Error - <html><b>Gateway</b>  timed   out</html>''"
  have guard: "isMiniMaxProvider (provider ?profile)"
    by (simp add: isMiniMaxProvider_def)
  have key: "resolvedKey (apiKey (provider ?profile))
               ((\<lambda>n (s::unit) d. None) (js ''MINIMAX_API_KEY'') () None) = js ''secret''"
    by (simp add: resolvedKey_def js_def)
  have nonempty: "js ''secret'' \<noteq> []"
    by (simp add: js_def)
  have failure: "failureText ((\<lambda>request. Inr ?response) (modelsRequest (js ''secret'')))
      = Some ?raw"
    by (simp add: failureText_def toDecimal.simps js_def)
  have clean: "sanitizedText ?raw = js ''500 Internal Server Error - Gateway timed out''"
    by (simp add: sanitizedText_def reasonWords_def isWhiteSpace_def js_def)
  have whole: "js ''MiniMax models API unavailable (''
      @ js ''500 Internal Server Error - Gateway timed out''
      @ js ''). Falling back to static MiniMax model list: MiniMax-M2, MiniMax-M2-Stable''
    = js ''MiniMax models API unavailable (500 Internal Server Error - Gateway timed out). Falling back to static MiniMax model list: MiniMax-M2, MiniMax-M2-Stable''"
    by (simp add: js_def)
  from loadMiniMaxModels_fallback [where resolve = "\<lambda>n (s::unit) d. None"
          and settings = "()" and fetch = "\<lambda>request. Inr ?response"
          and profile = ?profile and k = "js ''secret''" and modelsInfo = Map.empty,
          OF guard key nonempty failure, THEN conjunct1]
  show ?thesis
    by (simp only: clean whole)
qed

text \<open>
  On entries whose \<open>id\<close>, \<open>model\<close> and \<open>name\<close> are each absent, \<open>null\<close> or a string,
  the first field that is present and the first field that is a string are the same.
\<close>

lemma presentEntryId_spec: "textualFields e \<Longrightarrow> presentEntryId e = specEntryId e"
proof (cases e)
  case (JObject kvs)
  assume "textualFields e"
  with JObject show ?thesis
    by (cases "map_of (rev kvs) (js ''id'')" rule: textual.cases;
        cases "map_of (rev kvs) (js ''model'')" rule: textual.cases;
        cases "map_of (rev kvs) (js ''name'')" rule: textual.cases)
       (simp_all add: textualFields_def)
qed simp_all

lemma presentModelIds_spec:
  "\<forall>e \<in> set entries. textualFields e \<Longrightarrow> presentModelIds entries = specModelIds entries"
proof (induction entries)
  case Nil
  show ?case by (simp add: presentModelIds_def specModelIds_def)
next
  case (Cons e entries)
  then show ?case
    by (cases "specEntryId e")
       (simp_all add: presentModelIds_def specModelIds_def List.map_filter_simps
          presentEntryId_spec)
qed

lemma empty_payload_text:
  "sanitizedText (js ''Empty or unsupported MiniMax models response payload'')
     = js ''Empty or unsupported MiniMax models response payload''"
  by (simp add: sanitizedText_def reasonWords_def isWhiteSpace_def js_def)

text \<open>
  Claim C2, as amended. For every MiniMax profile with a non-empty key and every
  response with a status from 200 to 299 whose body can be parsed, the entries are the
  elements of the body's \<open>data\<close> array (none when \<open>data\<close> is not an array). Each entry
  is read as a bare string, or as an object by its first field among \<open>id\<close>, \<open>model\<close>
  and \<open>name\<close> (in that order) that is present and not \<open>null\<close>: the entry gives that
  field's value when it is a string, and nothing otherwise. Entries that give nothing or
  the empty string are dropped. When an identifier is left, the operation returns
  \<open>success = true\<close> with one model for each remaining identifier, in the order of the
  entries, and writes no warning; when none is left, it returns \<open>success = true\<close>
  with the models of the static list and warns of an empty or unsupported payload.
\<close>

theorem loadMiniMaxModels_parsed:
  assumes guard: "isMiniMaxProvider (provider profile)"
    and key: "resolvedKey (apiKey (provider profile))
                (resolve (js ''MINIMAX_API_KEY'') settings None) = k"
    and nonempty: "k \<noteq> []"
    and response: "fetch (modelsRequest k) = Inr resp"
    and status: "200 \<le> status resp" "status resp \<le> 299"
    and body: "jsonResult resp = Inr body"
  shows "loadMiniMaxModels resolve fetch profile modelsInfo settings =
     (if presentModelIds (dataEntries body) = [] then
        \<lparr>returned = Inr \<lparr>models = map (toModel profile modelsInfo)
                                     [js ''MiniMax-M2'', js ''MiniMax-M2-Stable''],
                          success = True, error = None\<rparr>,
         fetched = [modelsRequest k],
         logged = [Warn (js ''MiniMax models API unavailable (Empty or unsupported MiniMax models response payload). Falling back to static MiniMax model list: MiniMax-M2, MiniMax-M2-Stable'')]\<rparr>
      else
        \<lparr>returned = Inr \<lparr>models = map (toModel profile modelsInfo)
                                     (presentModelIds (dataEntries body)),
                          success = True, error = None\<rparr>,
         fetched = [modelsRequest k], logged = []\<rparr>)
   \<and> map modelId (map (toModel profile modelsInfo) (presentModelIds (dataEntries body)))
       = presentModelIds (dataEntries body)"
proof
  show "map modelId (map (toModel profile modelsInfo) (presentModelIds (dataEntries body)))
       = presentModelIds (dataEntries body)"
    by (simp add: modelId_toModel comp_def)
next
  show "loadMiniMaxModels resolve fetch profile modelsInfo settings =
     (if presentModelIds (dataEntries body) = [] then
        \<lparr>returned = Inr \<lparr>models = map (toModel profile modelsInfo)
                                     [js ''MiniMax-M2'', js ''MiniMax-M2-Stable''],
                          success = True, error = None\<rparr>,
         fetched = [modelsRequest k],
         logged = [Warn (js ''MiniMax models API unavailable (Empty or unsupported MiniMax models response payload). Falling back to static MiniMax model list: MiniMax-M2, MiniMax-M2-Stable'')]\<rparr>
      else
        \<lparr>returned = Inr \<lparr>models = map (toModel profile modelsInfo)
                                     (presentModelIds (dataEntries body)),
                          success = True, error = None\<rparr>,
         fetched = [modelsRequest k], logged = []\<rparr>)"
  proof (cases "presentModelIds (dataEntries body) = []")
    case True
    with response status body
    have "failureText (fetch (modelsRequest k))
        = Some (js ''Empty or unsupported MiniMax models response payload'')"
      by (simp add: failureText_def)
    from loadMiniMaxModels_failure [where resolve = resolve and settings = settings
        and fetch = fetch and profile = profile and k = k and modelsInfo = modelsInfo,
        OF guard key nonempty this]
    have "loadMiniMaxModels resolve fetch profile modelsInfo settings =
        \<lparr>returned = Inr \<lparr>models = map (toModel profile modelsInfo) KNOWN_MINIMAX_MODELS,
                          success = True, error = None\<rparr>,
         fetched = [modelsRequest k],
         logged = [Warn (warningText (js ''Empty or unsupported MiniMax models response payload''))]\<rparr>"
      by (simp only: empty_payload_text)
    moreover have "warningText (js ''Empty or unsupported MiniMax models response payload'')
        = js ''MiniMax models API unavailable (Empty or unsupported MiniMax models response payload). Falling back to static MiniMax model list: MiniMax-M2, MiniMax-M2-Stable''"
      by (simp add: warningText_def KNOWN_MINIMAX_MODELS_def js_def)
    ultimately show ?thesis using True by (simp add: KNOWN_MINIMAX_MODELS_def)
  next
    case False
    with response status body
    have "tryBlock fetch profile modelsInfo (modelsRequest k)
       = Inr (\<lparr>models = map (toModel profile modelsInfo) (presentModelIds (dataEntries body)),
               success = True, error = None\<rparr>, [])"
      by (intro tryBlock_parsed)
    then have "loadMiniMaxModels resolve fetch profile modelsInfo settings =
        \<lparr>returned = Inr \<lparr>models = map (toModel profile modelsInfo)
                                     (presentModelIds (dataEntries body)),
                          success = True, error = None\<rparr>,
         fetched = [modelsRequest k], logged = []\<rparr>"
      by (rule loadMiniMaxModels_tried [where resolve = resolve and settings = settings
            and fetch = fetch and profile = profile and k = k, OF guard key nonempty])
    with False show ?thesis by simp
  qed
qed

text \<open>
  The body \<open>{"data": [{"id": "foo"}, "bar", {"model": "baz"}, {"nope": 1}]}\<close> of the
  specification gives the identifiers \<open>foo\<close>, \<open>bar\<close>, \<open>baz\<close>.
\<close>

theorem loadMiniMaxModels_parsed_witness:
  "loadMiniMaxModels (\<lambda>n (s::unit) d. None)
         (\<lambda>request. Inr \<lparr>status = 200, statusText = js ''OK'', textResult = None,
            jsonResult = Inr (JObject [(js ''data'',
              JArray [JObject [(js ''id'', JString (js ''foo''))], JString (js ''bar''),
                      JObject [(js ''model'', JString (js ''baz''))],
                      JObject [(js ''nope'', JNumber (lit 1 1))]])])\<rparr>)
         \<lparr>profileId = js ''mm'',
          provider = \<lparr>name = js ''minimax'', apiKey = Some (js ''k1'')\<rparr>,
          headers = None\<rparr>
         Map.empty ()
     = \<lparr>returned = Inr \<lparr>models =
              [\<lparr>inputCostPerToken = None, outputCostPerToken = None,
                cacheWriteInputTokenCost = None, cacheReadInputTokenCost = None,
                modelId = js ''foo'', providerId = js ''mm''\<rparr>,
               \<lparr>inputCostPerToken = None, outputCostPerToken = None,
                cacheWriteInputTokenCost = None, cacheReadInputTokenCost = None,
                modelId = js ''bar'', providerId = js ''mm''\<rparr>,
               \<lparr>inputCostPerToken = None, outputCostPerToken = None,
                cacheWriteInputTokenCost = None, cacheReadInputTokenCost = None,
                modelId = js ''baz'', providerId = js ''mm''\<rparr>],
            success = True, error = None\<rparr>,
        fetched = [modelsRequest (js ''k1'')], logged = []\<rparr>"
proof -
  let ?profile = "\<lparr>profileId = js ''mm'',
          provider = \<lparr>name = js ''minimax'', apiKey = Some (js ''k1'')\<rparr>,
          headers = None\<rparr>"
  let ?entries = "[JObject [(js ''id'', JString (js ''foo''))], JString (js ''bar''),
                   JObject [(js ''model'', JString (js ''baz''))],
                   JObject [(js ''nope'', JNumber (lit 1 1))]]"
  let ?body = "JObject [(js ''data'', JArray ?entries)]"
  let ?response = "\<lparr>status = 200, statusText = js ''OK'', textResult = None,
                    jsonResult = Inr ?body\<rparr>"
  have entries: "dataEntries ?body = ?entries"
    by simp
  have ids: "presentModelIds ?entries = [js ''foo'', js ''bar'', js ''baz'']"
    by (simp add: presentModelIds_def List.map_filter_simps js_def)
  have guard: "isMiniMaxProvider (provider ?profile)"
    by (simp add: isMiniMaxProvider_def)
  have key: "resolvedKey (apiKey (provider ?profile))
               ((\<lambda>n (s::unit) d. None) (js ''MINIMAX_API_KEY'') () None) = js ''k1''"
    by (simp add: resolvedKey_def js_def)
  have nonempty: "js ''k1'' \<noteq> []"
    by (simp add: js_def)
  have response: "(\<lambda>request. Inr ?response) (modelsRequest (js ''k1'')) = Inr ?response"
    by simp
  have status: "200 \<le> status ?response" "status ?response \<le> 299"
    by simp_all
  have json: "jsonResult ?response = Inr ?body"
    by simp
  have built: "map (toModel ?profile Map.empty) [js ''foo'', js ''bar'', js ''baz''] =
              [\<lparr>inputCostPerToken = None, outputCostPerToken = None,
                cacheWriteInputTokenCost = None, cacheReadInputTokenCost = None,
                modelId = js ''foo'', providerId = js ''mm''\<rparr>,
               \<lparr>inputCostPerToken = None, outputCostPerToken = None,
                cacheWriteInputTokenCost = None, cacheReadInputTokenCost = None,
                modelId = js ''bar'', providerId = js ''mm''\<rparr>,
               \<lparr>inputCostPerToken = None, outputCostPerToken = None,
                cacheWriteInputTokenCost = None, cacheReadInputTokenCost = None,
                modelId = js ''baz'', providerId = js ''mm''\<rparr>]"
    by (simp add: toModel_def)
  have some: "([js ''foo'', js ''bar'', js ''baz''] = []) = False"
    by simp
  from loadMiniMaxModels_parsed [where resolve = "\<lambda>n (s::unit) d. None"
          and settings = "()" and fetch = "\<lambda>request. Inr ?response"
          and profile = ?profile and k = "js ''k1''" and modelsInfo = Map.empty,
          OF guard key nonempty response status json, THEN conjunct1]
  show ?thesis
    by (simp only: entries ids some if_False built)
qed

text \<open>
  Claim C2, as stated, fails on the body \<open>{"data": [{"id": 1, "model": "baz"}]}\<close>: the
  entry is an object with a \<open>model\<close> string field, so that \<open>baz\<close> is its identifier in
  the words of the specification; the code stops at the numeric \<open>id\<close>, drops the entry
  and, no identifier being left, returns the static list.
\<close>

theorem loadMiniMaxModels_numeric_id:
  "specModelIds [JObject [(js ''id'', JNumber (lit 1 1)), (js ''model'', JString (js ''baz''))]]
     = [js ''baz'']
   \<and> loadMiniMaxModels (\<lambda>n (s::unit) d. None)
         (\<lambda>request. Inr \<lparr>status = 200, statusText = js ''OK'', textResult = None,
            jsonResult = Inr (JObject [(js ''data'',
              JArray [JObject [(js ''id'', JNumber (lit 1 1)),
                               (js ''model'', JString (js ''baz''))]])])\<rparr>)
         \<lparr>profileId = js ''mm'',
          provider = \<lparr>name = js ''minimax'', apiKey = Some (js ''k1'')\<rparr>,
          headers = None\<rparr>
         Map.empty ()
     = \<lparr>returned = Inr \<lparr>models =
              [\<lparr>inputCostPerToken = None, outputCostPerToken = None,
                cacheWriteInputTokenCost = None, cacheReadInputTokenCost = None,
                modelId = js ''MiniMax-M2'', providerId = js ''mm''\<rparr>,
               \<lparr>inputCostPerToken = None, outputCostPerToken = None,
                cacheWriteInputTokenCost = None, cacheReadInputTokenCost = None,
                modelId = js ''MiniMax-M2-Stable'', providerId = js ''mm''\<rparr>],
            success = True, error = None\<rparr>,
        fetched = [modelsRequest (js ''k1'')],
        logged = [Warn (js ''MiniMax models API unavailable (Empty or unsupported MiniMax models response payload). Falling back to static MiniMax model list: MiniMax-M2, MiniMax-M2-Stable'')]\<rparr>"
proof
  show "specModelIds [JObject [(js ''id'', JNumber (lit 1 1)), (js ''model'', JString (js ''baz''))]]
     = [js ''baz'']"
    by (simp add: specModelIds_def List.map_filter_simps js_def)
next
  let ?profile = "\<lparr>profileId = js ''mm'',
          provider = \<lparr>name = js ''minimax'', apiKey = Some (js ''k1'')\<rparr>,
          headers = None\<rparr>"
  let ?body = "JObject [(js ''data'',
              JArray [JObject [(js ''id'', JNumber (lit 1 1)),
                               (js ''model'', JString (js ''baz''))]])]"
  let ?response = "\<lparr>status = 200, statusText = js ''OK'', textResult = None,
                    jsonResult = Inr ?body\<rparr>"
  have guard: "isMiniMaxProvider (provider ?profile)"
    by (simp add: isMiniMaxProvider_def)
  have key: "resolvedKey (apiKey (provider ?profile))
               ((\<lambda>n (s::unit) d. None) (js ''MINIMAX_API_KEY'') () None) = js ''k1''"
    by (simp add: resolvedKey_def js_def)
  have nonempty: "js ''k1'' \<noteq> []"
    by (simp add: js_def)
  have failure: "failureText ((\<lambda>request. Inr ?response) (modelsRequest (js ''k1'')))
      = Some (js ''Empty or unsupported MiniMax models response payload'')"
    by (simp add: failureText_def presentModelIds_def List.map_filter_simps js_def)
  have known: "map (toModel ?profile Map.empty) KNOWN_MINIMAX_MODELS =
      [\<lparr>inputCostPerToken = None, outputCostPerToken = None,
        cacheWriteInputTokenCost = None, cacheReadInputTokenCost = None,
        modelId = js ''MiniMax-M2'', providerId = js ''mm''\<rparr>,
       \<lparr>inputCostPerToken = None, outputCostPerToken = None,
        cacheWriteInputTokenCost = None, cacheReadInputTokenCost = None,
        modelId = js ''MiniMax-M2-Stable'', providerId = js ''mm''\<rparr>]"
    by (simp add: toModel_def KNOWN_MINIMAX_MODELS_def)
  have warning: "warningText (sanitizedText (js ''Empty or unsupported MiniMax models response payload''))
        = js ''MiniMax models API unavailable (Empty or unsupported MiniMax models response payload). Falling back to static MiniMax model list: MiniMax-M2, MiniMax-M2-Stable''"
    by (simp add: empty_payload_text) (simp add: warningText_def KNOWN_MINIMAX_MODELS_def js_def)
  from loadMiniMaxModels_failure [where resolve = "\<lambda>n (s::unit) d. None"
          and settings = "()" and fetch = "\<lambda>request. Inr ?response"
          and profile = ?profile and k = "js ''k1''" and modelsInfo = Map.empty,
          OF guard key nonempty failure]
  show "loadMiniMaxModels (\<lambda>n (s::unit) d. None) (\<lambda>request. Inr ?response)
        ?profile Map.empty () =
      \<lparr>returned = Inr \<lparr>models =
              [\<lparr>inputCostPerToken = None, outputCostPerToken = None,
                cacheWriteInputTokenCost = None, cacheReadInputTokenCost = None,
                modelId = js ''MiniMax-M2'', providerId = js ''mm''\<rparr>,
               \<lparr>inputCostPerToken = None, outputCostPerToken = None,
                cacheWriteInputTokenCost = None, cacheReadInputTokenCost = None,
                modelId = js ''MiniMax-M2-Stable'', providerId = js ''mm''\<rparr>],
            success = True, error = None\<rparr>,
        fetched = [modelsRequest (js ''k1'')],
        logged = [Warn (js ''MiniMax models API unavailable (Empty or unsupported MiniMax models response payload). Falling back to static MiniMax model list: MiniMax-M2, MiniMax-M2-Stable'')]\<rparr>"
    by (simp only: known warning)
qed


text \<open>With a key, exactly one request is issued, and it carries the resolved key.\<close>

lemma loadMiniMaxModels_fetched:
  assumes "isMiniMaxProvider (provider profile)"
    and "resolvedKey (apiKey (provider profile))
           (resolve (js ''MINIMAX_API_KEY'') settings None) = k"
    and "k \<noteq> []"
  shows "fetched (loadMiniMaxModels resolve fetch profile modelsInfo settings)
           = [modelsRequest k]"
proof (cases "tryBlock fetch profile modelsInfo (modelsRequest k)")
  case (Inl t)
  obtain res l where "catchClause profile modelsInfo t = (res, l)"
    by (cases "catchClause profile modelsInfo t")
  with Inl show ?thesis
    using loadMiniMaxModels_caught [where resolve = resolve and settings = settings
        and fetch = fetch and profile = profile and k = k, OF assms]
    by simp
next
  case (Inr p)
  obtain r l where "p = (r, l)" by (cases p)
  with Inr show ?thesis
    using loadMiniMaxModels_tried [where resolve = resolve and settings = settings
        and fetch = fetch and profile = profile and k = k, OF assms]
    by simp
qed

lemma loadMiniMaxModels_without_key:
  assumes "falsy (apiKey (provider profile))"
    and "falsy (map_option envValue (resolve (js ''MINIMAX_API_KEY'') settings None))"
  shows "loadMiniMaxModels resolve fetch profile modelsInfo settings =
           \<lparr>returned = Inr \<lparr>models = [], success = False, error = None\<rparr>,
            fetched = [], logged = []\<rparr>"
proof -
  from assms(1) have "orEmpty (apiKey (provider profile)) = []"
    by (cases "apiKey (provider profile)") simp_all
  with assms(2) show ?thesis
    by (simp add: loadMiniMaxModels_def Let_def)
qed

text \<open>
  Claim C3. For every profile whose explicit key is absent or empty, when
  \<open>MINIMAX_API_KEY\<close> does not resolve to a non-empty value, the operation returns
  \<open>{models: [], success: false}\<close> and issues no HTTP request (and writes no log entry).
  For a MiniMax profile with a non-empty explicit key, the one request carries that key
  in \<open>x-api-key\<close>, whatever the environment variable resolves to.
\<close>

theorem loadMiniMaxModels_no_key:
  "(falsy (apiKey (provider profile))
      \<and> falsy (map_option envValue (resolve (js ''MINIMAX_API_KEY'') settings None))
    \<longrightarrow> loadMiniMaxModels resolve fetch profile modelsInfo settings =
          \<lparr>returned = Inr \<lparr>models = [], success = False, error = None\<rparr>,
           fetched = [], logged = []\<rparr>)
   \<and> (isMiniMaxProvider (provider profile) \<and> apiKey (provider profile) = Some k \<and> k \<noteq> []
    \<longrightarrow> fetched (loadMiniMaxModels resolve fetch profile modelsInfo settings) =
          [(js ''https://api.minimax.io/anthropic/v1/models'',
            [(js ''x-api-key'', k), (js ''anthropic-version'', js ''2023-06-01'')])])"
proof (intro conjI impI)
  assume "falsy (apiKey (provider profile))
      \<and> falsy (map_option envValue (resolve (js ''MINIMAX_API_KEY'') settings None))"
  then show "loadMiniMaxModels resolve fetch profile modelsInfo settings =
          \<lparr>returned = Inr \<lparr>models = [], success = False, error = None\<rparr>,
           fetched = [], logged = []\<rparr>"
    by (simp add: loadMiniMaxModels_without_key)
next
  assume a: "isMiniMaxProvider (provider profile) \<and> apiKey (provider profile) = Some k
      \<and> k \<noteq> []"
  then have "resolvedKey (apiKey (provider profile))
           (resolve (js ''MINIMAX_API_KEY'') settings None) = k"
    by (simp add: resolvedKey_def)
  with a have "fetched (loadMiniMaxModels resolve fetch profile modelsInfo settings)
           = [modelsRequest k]"
    using loadMiniMaxModels_fetched [where resolve = resolve and settings = settings
        and fetch = fetch and profile = profile and k = k]
    by simp
  then show "fetched (loadMiniMaxModels resolve fetch profile modelsInfo settings) =
          [(js ''https://api.minimax.io/anthropic/v1/models'',
            [(js ''x-api-key'', k), (js ''anthropic-version'', js ''2023-06-01'')])]"
    by (simp add: modelsRequest_def MINIMAX_MODELS_ENDPOINT_def MINIMAX_BASE_URL_def js_def)
qed

text \<open>
  An empty explicit key with an empty environment value, and an explicit key beside an
  environment value.
\<close>

theorem loadMiniMaxModels_no_key_witness:
  "loadMiniMaxModels
     (\<lambda>n (s::unit) d. Some \<lparr>envValue = [], envSource = js ''.env''\<rparr>)
     (\<lambda>request. Inl (ThrownError (Some (js ''unreachable''))))
     \<lparr>profileId = js ''mm'', provider = \<lparr>name = js ''minimax'', apiKey = Some []\<rparr>,
      headers = None\<rparr>
     Map.empty ()
   = \<lparr>returned = Inr \<lparr>models = [], success = False, error = None\<rparr>,
      fetched = [], logged = []\<rparr>
   \<and> fetched (loadMiniMaxModels
       (\<lambda>n (s::unit) d. Some \<lparr>envValue = js ''from-env'', envSource = js ''.env''\<rparr>)
       (\<lambda>request. Inl (ThrownError (Some (js ''fetch failed''))))
       \<lparr>profileId = js ''mm'',
        provider = \<lparr>name = js ''minimax'', apiKey = Some (js ''explicit'')\<rparr>,
        headers = None\<rparr>
       Map.empty ())
     = [(js ''https://api.minimax.io/anthropic/v1/models'',
         [(js ''x-api-key'', js ''explicit''),
          (js ''anthropic-version'', js ''2023-06-01'')])]"
proof
  let ?profile = "\<lparr>profileId = js ''mm'',
      provider = \<lparr>name = js ''minimax'', apiKey = Some []\<rparr>, headers = None\<rparr>"
  let ?resolve = "\<lambda>n (s::unit) d. Some \<lparr>envValue = [], envSource = js ''.env''\<rparr>"
  let ?fetch = "\<lambda>request :: js_string \<times> (js_string \<times> js_string) list.
                  Inl (ThrownError (Some (js ''unreachable''))) :: thrown + Response"
  have "falsy (apiKey (provider ?profile))
      \<and> falsy (map_option envValue (?resolve (js ''MINIMAX_API_KEY'') () None))"
    by simp
  then show "loadMiniMaxModels ?resolve ?fetch ?profile Map.empty ()
      = \<lparr>returned = Inr \<lparr>models = [], success = False, error = None\<rparr>,
         fetched = [], logged = []\<rparr>"
    by (rule loadMiniMaxModels_no_key [where resolve = ?resolve and settings = "()"
          and fetch = ?fetch and profile = ?profile and modelsInfo = Map.empty,
          THEN conjunct1, rule_format])
next
  let ?profile = "\<lparr>profileId = js ''mm'',
        provider = \<lparr>name = js ''minimax'', apiKey = Some (js ''explicit'')\<rparr>,
        headers = None\<rparr>"
  let ?resolve = "\<lambda>n (s::unit) d. Some \<lparr>envValue = js ''from-env'', envSource = js ''.env''\<rparr>"
  let ?fetch = "\<lambda>request :: js_string \<times> (js_string \<times> js_string) list.
                  Inl (ThrownError (Some (js ''fetch failed''))) :: thrown + Response"
  have "isMiniMaxProvider (provider ?profile)
      \<and> apiKey (provider ?profile) = Some (js ''explicit'') \<and> js ''explicit'' \<noteq> []"
    by (simp add: isMiniMaxProvider_def js_def)
  then show "fetched (loadMiniMaxModels ?resolve ?fetch ?profile Map.empty ())
     = [(js ''https://api.minimax.io/anthropic/v1/models'',
         [(js ''x-api-key'', js ''explicit''),
          (js ''anthropic-version'', js ''2023-06-01'')])]"
    by (rule loadMiniMaxModels_no_key [where resolve = ?resolve and settings = "()"
          and fetch = ?fetch and profile = ?profile and modelsInfo = Map.empty
          and k = "js ''explicit''", THEN conjunct2, rule_format])
qed

section \<open>Client construction\<close>

text \<open>The three ways through \<open>createMiniMaxLlm\<close>.\<close>

lemma createMiniMaxLlm_explicit:
  assumes "apiKey (provider profile) = Some key" and "key \<noteq> []"
  shows "createMiniMaxLlm resolve profile mdl settings projectDir =
           \<lparr>returned = Inr \<lparr>llmApiKey = key, llmBaseURL = MINIMAX_BASE_URL,
                             llmHeaders = headers profile, llmModelId = modelId mdl\<rparr>,
            fetched = [], logged = []\<rparr>"
  using assms by (simp add: createMiniMaxLlm_def)

lemma createMiniMaxLlm_environment:
  assumes "falsy (apiKey (provider profile))"
    and "resolve (js ''MINIMAX_API_KEY'') settings (Some projectDir) = Some effectiveVar"
    and "envValue effectiveVar \<noteq> []"
  shows "createMiniMaxLlm resolve profile mdl settings projectDir =
           \<lparr>returned = Inr \<lparr>llmApiKey = envValue effectiveVar, llmBaseURL = MINIMAX_BASE_URL,
                             llmHeaders = headers profile, llmModelId = modelId mdl\<rparr>,
            fetched = [],
            logged = [Debug (js ''Loaded MINIMAX_API_KEY from '' @ envSource effectiveVar)]\<rparr>"
  using assms by (simp add: createMiniMaxLlm_def)

lemma createMiniMaxLlm_missing:
  assumes "falsy (apiKey (provider profile))"
    and "falsy (map_option envValue
                  (resolve (js ''MINIMAX_API_KEY'') settings (Some projectDir)))"
  shows "returned (createMiniMaxLlm resolve profile mdl settings projectDir) =
           Inl (Error (js ''MiniMax API key is required in Providers settings or Aider environment variables (MINIMAX_API_KEY)''))"
  using assms
  by (cases "resolve (js ''MINIMAX_API_KEY'') settings (Some projectDir)")
     (simp_all add: createMiniMaxLlm_def)

lemma message_names_variable:
  "sublist (js ''MINIMAX_API_KEY'')
     (js ''MiniMax API key is required in Providers settings or Aider environment variables (MINIMAX_API_KEY)'')"
proof -
  have "js ''MiniMax API key is required in Providers settings or Aider environment variables (MINIMAX_API_KEY)''
      = js ''MiniMax API key is required in Providers settings or Aider environment variables (''
        @ js ''MINIMAX_API_KEY'' @ js '')''"
    by (simp add: js_def)
  then show ?thesis
    unfolding sublist_def by blast
qed

text \<open>
  \<open>createMiniMaxLlm\<close> throws if and only if the explicit key of the profile is absent
  or empty and \<open>MINIMAX_API_KEY\<close>, resolved with the project directory, gives no
  non-empty value; what it throws is an \<open>Error\<close> whose message names
  \<open>MINIMAX_API_KEY\<close>. A non-empty explicit key is used first, and the environment is
  then not consulted (no debug entry is written); otherwise the value resolved with the
  project directory is used.
\<close>

lemma createMiniMaxLlm_key:
  "((\<exists>e. returned (createMiniMaxLlm resolve profile mdl settings projectDir) = Inl e)
      \<longleftrightarrow> falsy (apiKey (provider profile))
          \<and> falsy (map_option envValue
                     (resolve (js ''MINIMAX_API_KEY'') settings (Some projectDir))))
   \<and> (\<forall>e. returned (createMiniMaxLlm resolve profile mdl settings projectDir) = Inl e
          \<longrightarrow> (\<exists>m. e = Error m \<and> sublist (js ''MINIMAX_API_KEY'') m))
   \<and> (\<forall>key. apiKey (provider profile) = Some key \<and> key \<noteq> []
          \<longrightarrow> createMiniMaxLlm resolve profile mdl settings projectDir =
                \<lparr>returned = Inr \<lparr>llmApiKey = key, llmBaseURL = MINIMAX_BASE_URL,
                                  llmHeaders = headers profile, llmModelId = modelId mdl\<rparr>,
                 fetched = [], logged = []\<rparr>)
   \<and> (\<forall>effectiveVar. falsy (apiKey (provider profile))
          \<and> resolve (js ''MINIMAX_API_KEY'') settings (Some projectDir) = Some effectiveVar
          \<and> envValue effectiveVar \<noteq> []
          \<longrightarrow> returned (createMiniMaxLlm resolve profile mdl settings projectDir) =
                Inr \<lparr>llmApiKey = envValue effectiveVar, llmBaseURL = MINIMAX_BASE_URL,
                     llmHeaders = headers profile, llmModelId = modelId mdl\<rparr>)"
proof (intro conjI allI impI)
  show "(\<exists>e. returned (createMiniMaxLlm resolve profile mdl settings projectDir) = Inl e)
      \<longleftrightarrow> falsy (apiKey (provider profile))
          \<and> falsy (map_option envValue
                     (resolve (js ''MINIMAX_API_KEY'') settings (Some projectDir)))"
  proof (cases "falsy (apiKey (provider profile))")
    case True
    show ?thesis
    proof (cases "falsy (map_option envValue
                     (resolve (js ''MINIMAX_API_KEY'') settings (Some projectDir)))")
      case missing: True
      with True show ?thesis
        by (simp add: createMiniMaxLlm_missing)
    next
      case False
      then obtain effectiveVar where
        "resolve (js ''MINIMAX_API_KEY'') settings (Some projectDir) = Some effectiveVar"
        "envValue effectiveVar \<noteq> []"
        by (cases "resolve (js ''MINIMAX_API_KEY'') settings (Some projectDir)") auto
      with True False show ?thesis
        by (simp add: createMiniMaxLlm_environment)
    qed
  next
    case False
    then obtain key where "apiKey (provider profile) = Some key" "key \<noteq> []"
      by (cases "apiKey (provider profile)") auto
    with False show ?thesis
      by (simp add: createMiniMaxLlm_explicit)
  qed
next
  fix e
  assume thrown: "returned (createMiniMaxLlm resolve profile mdl settings projectDir) = Inl e"
  have "e = Error (js ''MiniMax API key is required in Providers settings or Aider environment variables (MINIMAX_API_KEY)'')"
    using thrown
    by (simp add: createMiniMaxLlm_def Let_def split: if_splits option.splits prod.splits)
  then show "\<exists>m. e = Error m \<and> sublist (js ''MINIMAX_API_KEY'') m"
    using message_names_variable by simp
next
  fix key
  assume "apiKey (provider profile) = Some key \<and> key \<noteq> []"
  then show "createMiniMaxLlm resolve profile mdl settings projectDir =
                \<lparr>returned = Inr \<lparr>llmApiKey = key, llmBaseURL = MINIMAX_BASE_URL,
                                  llmHeaders = headers profile, llmModelId = modelId mdl\<rparr>,
                 fetched = [], logged = []\<rparr>"
    by (simp add: createMiniMaxLlm_explicit)
next
  fix effectiveVar
  assume "falsy (apiKey (provider profile))
          \<and> resolve (js ''MINIMAX_API_KEY'') settings (Some projectDir) = Some effectiveVar
          \<and> envValue effectiveVar \<noteq> []"
  then show "returned (createMiniMaxLlm resolve profile mdl settings projectDir) =
                Inr \<lparr>llmApiKey = envValue effectiveVar, llmBaseURL = MINIMAX_BASE_URL,
                     llmHeaders = headers profile, llmModelId = modelId mdl\<rparr>"
    by (simp add: createMiniMaxLlm_environment)
qed


section \<open>An empty explicit key\<close>

text \<open>Model discovery reads the profile's identifier and key only.\<close>

lemma toModel_profileId:
  "profileId p = profileId q \<Longrightarrow> toModel p = toModel q"
  by (intro ext) (simp add: toModel_def split: option.split)

lemma fallbackToKnownModels_profileId:
  assumes "profileId p = profileId q"
  shows "fallbackToKnownModels p = fallbackToKnownModels q"
  unfolding fallbackToKnownModels_def toModel_profileId [OF assms] by (rule refl)

lemma tryBlock_profileId:
  assumes "profileId p = profileId q"
  shows "tryBlock fetch p = tryBlock fetch q"
  unfolding tryBlock_def toModel_profileId [OF assms]
    fallbackToKnownModels_profileId [OF assms] by (rule refl)

lemma catchClause_profileId:
  assumes "profileId p = profileId q"
  shows "catchClause p = catchClause q"
  unfolding catchClause_def fallbackToKnownModels_profileId [OF assms] by (rule refl)

text \<open>
  Claim C9. A profile whose explicit key is the empty string behaves as the same profile
  without a key: the mapping for the external tool is the same and does not bind
  \<open>ANTHROPIC_API_KEY\<close>; \<open>createMiniMaxLlm\<close> behaves the same, that is, it uses the
  value of the environment variable resolved with the project directory and throws when
  that is absent or empty; and model discovery behaves the same.
\<close>

theorem empty_key_absent:
  "getMiniMaxAiderMapping (profile\<lparr>provider := (provider profile)\<lparr>apiKey := Some []\<rparr>\<rparr>) mid
     = getMiniMaxAiderMapping (profile\<lparr>provider := (provider profile)\<lparr>apiKey := None\<rparr>\<rparr>) mid
   \<and> environmentVariables
       (getMiniMaxAiderMapping (profile\<lparr>provider := (provider profile)\<lparr>apiKey := Some []\<rparr>\<rparr>) mid)
       (js ''ANTHROPIC_API_KEY'') = None
   \<and> createMiniMaxLlm resolve (profile\<lparr>provider := (provider profile)\<lparr>apiKey := Some []\<rparr>\<rparr>)
       mdl settings projectDir
     = createMiniMaxLlm resolve (profile\<lparr>provider := (provider profile)\<lparr>apiKey := None\<rparr>\<rparr>)
       mdl settings projectDir
   \<and> returned (createMiniMaxLlm resolve
        (profile\<lparr>provider := (provider profile)\<lparr>apiKey := Some []\<rparr>\<rparr>) mdl settings projectDir)
     = (case resolve (js ''MINIMAX_API_KEY'') settings (Some projectDir) of
          None \<Rightarrow> Inl (Error (js ''MiniMax API key is required in Providers settings or Aider environment variables (MINIMAX_API_KEY)''))
        | Some effectiveVar \<Rightarrow>
            if envValue effectiveVar = []
            then Inl (Error (js ''MiniMax API key is required in Providers settings or Aider environment variables (MINIMAX_API_KEY)''))
            else Inr \<lparr>llmApiKey = envValue effectiveVar, llmBaseURL = MINIMAX_BASE_URL,
                      llmHeaders = headers profile, llmModelId = modelId mdl\<rparr>)
   \<and> loadMiniMaxModels resolve fetch
       (profile\<lparr>provider := (provider profile)\<lparr>apiKey := Some []\<rparr>\<rparr>) modelsInfo settings
     = loadMiniMaxModels resolve fetch
       (profile\<lparr>provider := (provider profile)\<lparr>apiKey := None\<rparr>\<rparr>) modelsInfo settings"
proof (intro conjI)
  show "getMiniMaxAiderMapping (profile\<lparr>provider := (provider profile)\<lparr>apiKey := Some []\<rparr>\<rparr>) mid
     = getMiniMaxAiderMapping (profile\<lparr>provider := (provider profile)\<lparr>apiKey := None\<rparr>\<rparr>) mid"
    by (simp add: getMiniMaxAiderMapping_def)
  show "environmentVariables
       (getMiniMaxAiderMapping (profile\<lparr>provider := (provider profile)\<lparr>apiKey := Some []\<rparr>\<rparr>) mid)
       (js ''ANTHROPIC_API_KEY'') = None"
    by (simp add: getMiniMaxAiderMapping_def js_def)
  show "createMiniMaxLlm resolve (profile\<lparr>provider := (provider profile)\<lparr>apiKey := Some []\<rparr>\<rparr>)
       mdl settings projectDir
     = createMiniMaxLlm resolve (profile\<lparr>provider := (provider profile)\<lparr>apiKey := None\<rparr>\<rparr>)
       mdl settings projectDir"
    by (cases "resolve (js ''MINIMAX_API_KEY'') settings (Some projectDir)")
       (simp_all add: createMiniMaxLlm_def)
  show "returned (createMiniMaxLlm resolve
        (profile\<lparr>provider := (provider profile)\<lparr>apiKey := Some []\<rparr>\<rparr>) mdl settings projectDir)
     = (case resolve (js ''MINIMAX_API_KEY'') settings (Some projectDir) of
          None \<Rightarrow> Inl (Error (js ''MiniMax API key is required in Providers settings or Aider environment variables (MINIMAX_API_KEY)''))
        | Some effectiveVar \<Rightarrow>
            if envValue effectiveVar = []
            then Inl (Error (js ''MiniMax API key is required in Providers settings or Aider environment variables (MINIMAX_API_KEY)''))
            else Inr \<lparr>llmApiKey = envValue effectiveVar, llmBaseURL = MINIMAX_BASE_URL,
                      llmHeaders = headers profile, llmModelId = modelId mdl\<rparr>)"
    by (cases "resolve (js ''MINIMAX_API_KEY'') settings (Some projectDir)")
       (simp_all add: createMiniMaxLlm_def)
  show "loadMiniMaxModels resolve fetch
       (profile\<lparr>provider := (provider profile)\<lparr>apiKey := Some []\<rparr>\<rparr>) modelsInfo settings
     = loadMiniMaxModels resolve fetch
       (profile\<lparr>provider := (provider profile)\<lparr>apiKey := None\<rparr>\<rparr>) modelsInfo settings"
  proof -
    let ?p = "profile\<lparr>provider := (provider profile)\<lparr>apiKey := Some []\<rparr>\<rparr>"
    let ?q = "profile\<lparr>provider := (provider profile)\<lparr>apiKey := None\<rparr>\<rparr>"
    have same: "profileId ?p = profileId ?q" by simp
    show "loadMiniMaxModels resolve fetch ?p modelsInfo settings
        = loadMiniMaxModels resolve fetch ?q modelsInfo settings"
      unfolding loadMiniMaxModels_def tryBlock_profileId [OF same]
        catchClause_profileId [OF same]
      by (simp add: isMiniMaxProvider_def)
  qed
qed

end
